theory Spec2Isabelle
  imports Complex_Main "HOL-Library.Sublist"
begin

section \<open>Data model (src/types.ts)\<close>

datatype CallStatus = PENDING | IN_PROGRESS | COMPLETED | FAILED | BOOKED

datatype Sentiment = Positive | Neutral | Negative

datatype Role = user | model

datatype Category = objection_handling | value_proposition | closing_technique

record TranscriptEntry =
  role :: Role
  entry_text :: string
  timestamp :: string

text \<open>
  A \<open>Lead\<close> as \<open>types.ts\<close> declares it. Fields marked \<open>?\<close> in the source are options.
  \<open>priceRange\<close> is declared as a union of three literals; the scorer has a \<open>default\<close>
  branch for any other value, so the field is kept as a string here.
\<close>

record Lead =
  lead_id :: string
  restaurantName :: string
  contactName :: string
  phone :: string
  status :: CallStatus
  cuisine :: string
  location :: string
  priceRange :: string
  lastContacted :: "string option"
  lead_notes :: "string option"
  sentiment :: "Sentiment option"
  transcript :: "TranscriptEntry list option"
  score :: int
  recording :: "string option"

text \<open>\<open>Partial<Lead>\<close>: every field of \<open>Lead\<close> may be absent.\<close>

record PartialLead =
  lead_id_p :: "string option"
  restaurantName_p :: "string option"
  contactName_p :: "string option"
  phone_p :: "string option"
  status_p :: "CallStatus option"
  cuisine_p :: "string option"
  location_p :: "string option"
  priceRange_p :: "string option"
  lastContacted_p :: "string option"
  notes_p :: "string option"
  sentiment_p :: "Sentiment option"
  transcript_p :: "TranscriptEntry list option"
  score_p :: "int option"
  recording_p :: "string option"

text \<open>A \<open>Lead\<close> passed where a \<open>Partial<Lead>\<close> is expected: all required fields present.\<close>

definition asPartial :: "Lead \<Rightarrow> PartialLead" where
  "asPartial l =
     \<lparr> lead_id_p = Some (lead_id l),
       restaurantName_p = Some (restaurantName l),
       contactName_p = Some (contactName l),
       phone_p = Some (phone l),
       status_p = Some (status l),
       cuisine_p = Some (cuisine l),
       location_p = Some (location l),
       priceRange_p = Some (priceRange l),
       lastContacted_p = lastContacted l,
       notes_p = lead_notes l,
       sentiment_p = sentiment l,
       transcript_p = transcript l,
       score_p = Some (score l),
       recording_p = recording l \<rparr>"

record KnowledgeSnippet =
  snippet_id :: string
  category :: Category
  content :: string
  sourceRestaurant :: string
  timestamp_k :: string

section \<open>LeadScorer (src/App.tsx, calculateLeadScore)\<close>

text \<open>
  The source keeps one mutable \<open>score\<close> and runs three \<open>switch\<close> statements over it;
  the successive values are \<open>score1\<close>, \<open>score2\<close>, \<open>score3\<close>. A \<open>switch\<close> with no matching
  case and no \<open>default\<close> leaves the score as it is.
\<close>

definition calculateLeadScore :: "PartialLead \<Rightarrow> int" where
  "calculateLeadScore lead =
     (let score0 = (0::int);
          score1 = (case priceRange_p lead of
                      None \<Rightarrow> score0 + 10
                    | Some p \<Rightarrow>
                        if p = ''$$$$'' then score0 + 40
                        else if p = ''$$$'' then score0 + 30
                        else if p = ''$$'' then score0 + 20
                        else score0 + 10);
          score2 = (case status_p lead of
                      None \<Rightarrow> score1
                    | Some BOOKED \<Rightarrow> 100
                    | Some COMPLETED \<Rightarrow> score1 + 10
                    | Some IN_PROGRESS \<Rightarrow> score1 + 20
                    | Some PENDING \<Rightarrow> score1 + 0
                    | Some FAILED \<Rightarrow> score1 - 20);
          score3 = (if status_p lead \<noteq> Some BOOKED
                    then (case sentiment_p lead of
                            None \<Rightarrow> score2
                          | Some Positive \<Rightarrow> score2 + 30
                          | Some Neutral \<Rightarrow> score2 + 5
                          | Some Negative \<Rightarrow> score2 - 30)
                    else score2)
      in max 0 (min 100 score3))"

subsection \<open>The additive reference definition of the specification\<close>

definition priceBase :: "string \<Rightarrow> int" where
  "priceBase p =
     (if p = ''$$$$'' then 40 else if p = ''$$$'' then 30 else if p = ''$$'' then 20 else 10)"

fun statusModifier :: "CallStatus \<Rightarrow> int \<Rightarrow> int" where
  "statusModifier BOOKED running = 100"
| "statusModifier COMPLETED running = running + 10"
| "statusModifier IN_PROGRESS running = running + 20"
| "statusModifier PENDING running = running + 0"
| "statusModifier FAILED running = running - 20"

fun sentimentDelta :: "Sentiment option \<Rightarrow> int" where
  "sentimentDelta (Some Positive) = 30"
| "sentimentDelta (Some Neutral) = 5"
| "sentimentDelta (Some Negative) = - 30"
| "sentimentDelta None = 0"

definition clamp :: "int \<Rightarrow> int" where
  "clamp x = (if x < 0 then 0 else if 100 < x then 100 else x)"

definition referenceScore :: "string \<Rightarrow> CallStatus \<Rightarrow> Sentiment option \<Rightarrow> int" where
  "referenceScore p st se =
     clamp (statusModifier st (priceBase p) + (if st = BOOKED then 0 else sentimentDelta se))"

section \<open>Lead store update (src/App.tsx, handleUpdateLead)\<close>

definition handleUpdateLead :: "Lead \<Rightarrow> Lead list \<Rightarrow> Lead list" where
  "handleUpdateLead updatedData prev =
     (let scoredLead = updatedData\<lparr>score := calculateLeadScore (asPartial updatedData)\<rparr>
      in map (\<lambda>l. if lead_id l = lead_id scoredLead then scoredLead else l) prev)"

section \<open>KnowledgeRetriever (LiveAgentDemo component, selectRelevantSnippets)\<close>

subsection \<open>String primitives of the host language\<close>

text \<open>
  A string is a list of code units below 256 (Latin-1). On these, \<open>toLowerCase\<close> maps
  \<open>A\<close>..\<open>Z\<close> and the capital letters \<open>U+00C0\<close>..\<open>U+00DE\<close> (without the sign \<open>U+00D7\<close>) to
  the letter 32 places on and leaves every other code unit alone; \<open>str_includes\<close> is
  \<open>String.prototype.includes\<close>, the substring test; \<open>join\<close> is
  \<open>Array.prototype.join(' ')\<close>; \<open>trim\<close> strips white space and line terminators (tab,
  line feed, vertical tab, form feed, carriage return, space, no-break space) at both
  ends.
\<close>

definition lowerChar :: "char \<Rightarrow> char" where
  "lowerChar c =
     (let n = (of_char c :: nat)
      in if (65 \<le> n \<and> n \<le> 90) \<or> (192 \<le> n \<and> n \<le> 222 \<and> n \<noteq> 215)
         then char_of (n + 32) else c)"

definition toLowerCase :: "string \<Rightarrow> string" where
  "toLowerCase s = map lowerChar s"

fun str_includes :: "string \<Rightarrow> string \<Rightarrow> bool" where
  "str_includes [] w = (w = [])"
| "str_includes (c # cs) w = (prefix w (c # cs) \<or> str_includes cs w)"

fun join :: "string list \<Rightarrow> string" where
  "join [] = []"
| "join [x] = x"
| "join (x # y # ys) = x @ '' '' @ join (y # ys)"

definition isSpace :: "char \<Rightarrow> bool" where
  "isSpace c =
     (c \<in> set [CHR 0x09, CHR 0x0A, CHR 0x0B, CHR 0x0C, CHR 0x0D, CHR '' '', CHR 0xA0])"

definition trim :: "string \<Rightarrow> string" where
  "trim s = rev (dropWhile isSpace (rev (dropWhile isSpace s)))"

subsection \<open>Sorting with a comparator\<close>

text \<open>
  \<open>Array.prototype.sort(cmp)\<close> is stable, and for a comparator that orders by a numeric key
  its result is determined: the elements by that order, equal ones in their former order.
  Insertion from the right computes it: an element goes in front of the first element it
  does not compare greater than.
\<close>

fun insert_cmp :: "('a \<Rightarrow> 'a \<Rightarrow> int) \<Rightarrow> 'a \<Rightarrow> 'a list \<Rightarrow> 'a list" where
  "insert_cmp cmp x [] = [x]"
| "insert_cmp cmp x (y # ys) =
     (if cmp x y \<le> 0 then x # y # ys else y # insert_cmp cmp x ys)"

definition sort_cmp :: "('a \<Rightarrow> 'a \<Rightarrow> int) \<Rightarrow> 'a list \<Rightarrow> 'a list" where
  "sort_cmp cmp xs = foldr (insert_cmp cmp) xs []"

subsection \<open>Scoring and selection\<close>

definition keywords_rag :: "string list" where
  "keywords_rag =
     [''busy'', ''manager'', ''expensive'', ''cost'', ''price'', ''hostess'', ''email'',
      ''send info'', ''not interested'', ''later'']"

definition contextText :: "Lead \<Rightarrow> string" where
  "contextText lead =
     toLowerCase ((case lead_notes lead of None \<Rightarrow> [] | Some n \<Rightarrow> n)
                   @ '' '' @ cuisine lead @ '' '' @ location lead)"

definition historyText :: "Lead \<Rightarrow> string" where
  "historyText lead =
     (case transcript lead of
        None \<Rightarrow> []
      | Some ts \<Rightarrow> toLowerCase (join (map entry_text ts)))"

definition fullContext :: "Lead \<Rightarrow> string" where
  "fullContext lead = contextText lead @ '' '' @ historyText lead"

text \<open>
  The body of the \<open>kb.map\<close> callback. \<open>lead.cuisine && ...\<close> is false for the empty string,
  and \<open>keywords.forEach\<close> is a fold over the running score.
\<close>

definition snippetScore :: "Lead \<Rightarrow> KnowledgeSnippet \<Rightarrow> int" where
  "snippetScore lead snippet =
     (let score0 = (0::int);
          contentLower = toLowerCase (content snippet);
          score1 = (if sourceRestaurant snippet = restaurantName lead
                    then score0 + 50 else score0);
          score2 = (if cuisine lead \<noteq> [] \<and> str_includes contentLower (toLowerCase (cuisine lead))
                    then score1 + 15 else score1);
          score3 = fold (\<lambda>word sc.
                           if str_includes (fullContext lead) word \<and> str_includes contentLower word
                           then sc + 10 else sc)
                        keywords_rag score2;
          score4 = (if status lead = FAILED \<and> category snippet = objection_handling
                    then score3 + 5 else score3);
          score5 = (if priceRange lead = ''$$$$'' \<and> category snippet = value_proposition
                    then score4 + 5 else score4)
      in score5 + 1)"

record ScoredSnippet =
  snippet :: KnowledgeSnippet
  item_score :: int

definition scoredSnippets :: "Lead \<Rightarrow> KnowledgeSnippet list \<Rightarrow> ScoredSnippet list" where
  "scoredSnippets lead kb =
     map (\<lambda>sn. \<lparr> snippet = sn, item_score = snippetScore lead sn \<rparr>) kb"

definition selectRelevantSnippets :: "Lead \<Rightarrow> KnowledgeSnippet list \<Rightarrow> KnowledgeSnippet list" where
  "selectRelevantSnippets lead kb =
     (if kb = [] then []
      else map snippet
             (take 3
               (filter (\<lambda>item. item_score item > 0)
                 (sort_cmp (\<lambda>a b. item_score b - item_score a) (scoredSnippets lead kb)))))"

subsection \<open>The additive score of the specification\<close>

text \<open>
  The score as the specification words it: a sum of independent terms, the cuisine term
  being "the snippet content contains the lead's cuisine keyword (case-insensitive)".
\<close>

definition sharedKeywords :: "Lead \<Rightarrow> KnowledgeSnippet \<Rightarrow> string list" where
  "sharedKeywords lead sn =
     filter (\<lambda>w. str_includes (fullContext lead) w \<and> str_includes (toLowerCase (content sn)) w)
       keywords_rag"

definition additiveScore :: "Lead \<Rightarrow> KnowledgeSnippet \<Rightarrow> int" where
  "additiveScore lead sn =
     (if sourceRestaurant sn = restaurantName lead then 50 else 0)
     + (if str_includes (toLowerCase (content sn)) (toLowerCase (cuisine lead)) then 15 else 0)
     + 10 * int (length (sharedKeywords lead sn))
     + (if status lead = FAILED \<and> category sn = objection_handling then 5 else 0)
     + (if priceRange lead = ''$$$$'' \<and> category sn = value_proposition then 5 else 0)
     + 1"

text \<open>The same sum with the source's guard on the cuisine term: the cuisine is not empty.\<close>

definition additiveScoreGuarded :: "Lead \<Rightarrow> KnowledgeSnippet \<Rightarrow> int" where
  "additiveScoreGuarded lead sn =
     (if sourceRestaurant sn = restaurantName lead then 50 else 0)
     + (if cuisine lead \<noteq> [] \<and> str_includes (toLowerCase (content sn)) (toLowerCase (cuisine lead))
        then 15 else 0)
     + 10 * int (length (sharedKeywords lead sn))
     + (if status lead = FAILED \<and> category sn = objection_handling then 5 else 0)
     + (if priceRange lead = ''$$$$'' \<and> category sn = value_proposition then 5 else 0)
     + 1"

section \<open>Exceptions and statements\<close>

datatype exn =
  ApiError | SyntaxError | TypeError | InvalidCharacterError | RangeError | NotSupportedError

text \<open>
  A statement is a function from the state to the state it leaves and the exception it
  stopped on, if any. \<open>stmt\<close> is a state update that cannot throw, \<open>seq\<close> runs the second
  statement only when the first did not throw, and \<open>try_catch\<close> runs the handler on the
  state the body left when it threw.
\<close>

definition stmt :: "('s \<Rightarrow> 's) \<Rightarrow> 's \<Rightarrow> 's \<times> exn option" where
  "stmt f s = (f s, None)"

definition seq ::
  "('s \<Rightarrow> 's \<times> exn option) \<Rightarrow> ('s \<Rightarrow> 's \<times> exn option) \<Rightarrow> 's \<Rightarrow> 's \<times> exn option" where
  "seq first second s =
     (case first s of
        (s', None) \<Rightarrow> second s'
      | (s', Some e) \<Rightarrow> (s', Some e))"

definition try_catch ::
  "('s \<Rightarrow> 's \<times> exn option) \<Rightarrow> (exn \<Rightarrow> 's \<Rightarrow> 's \<times> exn option) \<Rightarrow> 's \<Rightarrow> 's \<times> exn option" where
  "try_catch body handler s =
     (case body s of
        (s', None) \<Rightarrow> (s', None)
      | (s', Some e) \<Rightarrow> handler e s')"

section \<open>Audio payloads (LiveAgentDemo component, decode and decodeAudioData)\<close>

text \<open>
  \<open>atob\<close> is the platform's forgiving base64 decoding: ASCII white space is removed; when
  the length is then a multiple of 4, one or two closing \<open>=\<close> are removed; a length of 1
  modulo 4 or a character outside the alphabet is a failure; every 4 characters give 3
  bytes, a rest of 2 or 3 characters gives 1 or 2 bytes. The result is a binary string,
  one code unit per byte.
\<close>

definition base64Alphabet :: string where
  "base64Alphabet = ''ABCDEFGHIJKLMNOPQRSTUVWXYZabcdefghijklmnopqrstuvwxyz0123456789+/''"

fun index_of :: "'a \<Rightarrow> 'a list \<Rightarrow> nat option" where
  "index_of x [] = None"
| "index_of x (y # ys) = (if x = y then Some 0 else map_option Suc (index_of x ys))"

definition sextet :: "char \<Rightarrow> nat option" where
  "sextet c = index_of c base64Alphabet"

fun octets :: "nat list \<Rightarrow> nat list" where
  "octets (a # b # c # d # rest) =
     (let v = ((a * 64 + b) * 64 + c) * 64 + d
      in [v div 65536, v div 256 mod 256, v mod 256] @ octets rest)"
| "octets [a, b, c] = (let v = ((a * 64 + b) * 64 + c) div 4 in [v div 256, v mod 256])"
| "octets [a, b] = [(a * 64 + b) div 16]"
| "octets [a] = []"
| "octets [] = []"

definition isAsciiWhitespace :: "char \<Rightarrow> bool" where
  "isAsciiWhitespace c = (c \<in> set [CHR 0x09, CHR 0x0A, CHR 0x0C, CHR 0x0D, CHR '' ''])"

definition stripPadding :: "string \<Rightarrow> string" where
  "stripPadding d =
     (case rev d of
        a # b # rest \<Rightarrow>
          if a = CHR ''='' \<and> b = CHR ''='' then rev rest
          else if a = CHR ''='' then rev (b # rest)
          else d
      | [a] \<Rightarrow> if a = CHR ''='' then [] else d
      | [] \<Rightarrow> d)"

definition atob :: "string \<Rightarrow> string option" where
  "atob data =
     (let d1 = filter (\<lambda>c. \<not> isAsciiWhitespace c) data;
          d2 = (if length d1 mod 4 = 0 then stripPadding d1 else d1)
      in if length d2 mod 4 = 1 then None
         else if list_all (\<lambda>c. sextet c \<noteq> None) d2
              then Some (map char_of (octets (map (\<lambda>c. the (sextet c)) d2)))
              else None)"

text \<open>
  \<open>decode\<close> copies the code units of \<open>atob(base64)\<close> into a byte array; it throws when
  \<open>atob\<close> does.
\<close>

definition decode :: "string \<Rightarrow> exn + string" where
  "decode base64 =
     (case atob base64 of
        None \<Rightarrow> Inl InvalidCharacterError
      | Some binaryString \<Rightarrow> Inr binaryString)"

text \<open>
  An \<open>AudioBuffer\<close> by its shape; the samples play no part in scheduling. Its \<open>duration\<close>
  is its length in frames over its sample rate.
\<close>

record AudioBuffer =
  numberOfChannels :: nat
  length_b :: nat
  sampleRate_b :: nat

definition buffer_duration :: "AudioBuffer \<Rightarrow> real" where
  "buffer_duration b = real (length_b b) / real (sampleRate_b b)"

text \<open>
  \<open>decodeAudioData\<close>: \<open>new Int16Array(data.buffer)\<close> throws a \<open>RangeError\<close> on an odd
  number of bytes, and \<open>ctx.createBuffer\<close> throws a \<open>NotSupportedError\<close> for a length of 0
  frames.
\<close>

definition decodeAudioData :: "string \<Rightarrow> nat \<Rightarrow> nat \<Rightarrow> exn + AudioBuffer" where
  "decodeAudioData data sampleRate numChannels =
     (if odd (length data) then Inl RangeError
      else (let frameCount = length data div 2 div numChannels
            in if frameCount = 0 then Inl NotSupportedError
               else Inr \<lparr> numberOfChannels = numChannels, length_b = frameCount,
                          sampleRate_b = sampleRate \<rparr>))"

section \<open>Agent session (LiveAgentDemo component)\<close>

subsection \<open>Component state, renders and closures\<close>

datatype SessionStatus = idle | connecting | listening | speaking | error

text \<open>
  A scheduled \<open>AudioBufferSourceNode\<close>: the time it was started at and the duration of its
  buffer. \<open>source_id\<close> stands for the identity of the node object. Times are seconds on the
  clock of the output audio context, taken as exact numbers.
\<close>

record ScheduledSource =
  source_id :: nat
  startAt :: real
  duration :: real

text \<open>
  What the session mutates: the React state \<open>transcripts\<close>, \<open>currentInput\<close>,
  \<open>currentOutput\<close> and \<open>status\<close> (through their setters), and the refs
  \<open>nextStartTimeRef\<close> and \<open>sourcesRef\<close>. The calls made on the audio graph are kept as
  well: \<open>started\<close> holds every \<open>source.start(t)\<close> in order, \<open>stopped\<close> the nodes \<open>stop()\<close>
  was called on, and \<open>created\<close> counts the source nodes made so far.
\<close>

record Session =
  transcripts :: "TranscriptEntry list"
  currentInput :: string
  currentOutput :: string
  status_s :: SessionStatus
  nextStartTime :: real
  sources :: "ScheduledSource list"
  started :: "ScheduledSource list"
  stopped :: "nat list"
  created :: nat

text \<open>
  The component is a function that runs once per render; \<open>transcripts\<close>, \<open>currentInput\<close>
  and \<open>currentOutput\<close> are constants of that run, and every function defined in the
  component body (\<open>startSession\<close>, \<open>stopSession\<close>, \<open>processPostCall\<close>, and the callbacks
  \<open>startSession\<close> hands to the connection) reads the constants of the render that created
  it. A \<open>Render\<close> is that snapshot together with the props. The setters, called with an
  updater function (\<open>prev => ...\<close>), act on the current state instead.
\<close>

record Render =
  transcripts_r :: "TranscriptEntry list"
  currentInput_r :: string
  currentOutput_r :: string
  activeLead :: "Lead option"
  effectiveLead :: "Lead option"
  onUpdateLead :: bool
  onLearn :: bool

definition render :: "Lead option \<Rightarrow> Lead option \<Rightarrow> bool \<Rightarrow> bool \<Rightarrow> Session \<Rightarrow> Render" where
  "render active effective upd learn s =
     \<lparr> transcripts_r = transcripts s,
       currentInput_r = currentInput s,
       currentOutput_r = currentOutput s,
       activeLead = active,
       effectiveLead = effective,
       onUpdateLead = upd,
       onLearn = learn \<rparr>"

text \<open>The state of a freshly mounted component with no transcript on the lead.\<close>

definition initialSession :: Session where
  "initialSession =
     \<lparr> transcripts = [], currentInput = [], currentOutput = [], status_s = idle,
       nextStartTime = 0, sources = [], started = [], stopped = [], created = 0 \<rparr>"

subsection \<open>Inbound messages (the onmessage callback of startSession)\<close>

text \<open>
  The parts of a \<open>LiveServerMessage\<close> the callback reads. \<open>audioData\<close> is the base64 text
  of the inline audio of the first part of the model turn.
\<close>

record LiveServerMessage =
  inputTranscription :: "string option"
  outputTranscription :: "string option"
  turnComplete :: bool
  audioData :: "string option"
  interrupted :: bool

text \<open>The readings taken while a message is handled: \<open>ctx.currentTime\<close> and the wall clock.\<close>

record Clock =
  currentTime :: real
  localeTime :: string

text \<open>
  The callback, for the render \<open>r\<close> whose \<open>startSession\<close> registered it, in its three
  parts. In the first, the tests \<open>currentInput.trim()\<close> and \<open>currentOutput.trim()\<close> and the
  texts that are committed read the constants of \<open>r\<close>;
  \<open>setCurrentInput(prev => prev + text)\<close> and \<open>setTranscripts(prev => [...prev, entry])\<close>
  act on the state.
\<close>

definition transcriptionPart :: "Render \<Rightarrow> Clock \<Rightarrow> LiveServerMessage \<Rightarrow> Session \<Rightarrow> Session" where
  "transcriptionPart r clk message s0 =
     (let s1 = (case inputTranscription message of
                  None \<Rightarrow> s0
                | Some t \<Rightarrow> s0\<lparr>currentInput := currentInput s0 @ t\<rparr>);
          s2 = (case outputTranscription message of
                  None \<Rightarrow> s1
                | Some t \<Rightarrow> s1\<lparr>currentOutput := currentOutput s1 @ t\<rparr>)
      in if turnComplete message
         then (let a = (if trim (currentInput_r r) \<noteq> []
                        then s2\<lparr>transcripts := transcripts s2 @
                                  [\<lparr> role = user, entry_text = currentInput_r r,
                                     timestamp = localeTime clk \<rparr>],
                                currentInput := []\<rparr>
                        else s2)
               in if trim (currentOutput_r r) \<noteq> []
                  then a\<lparr>transcripts := transcripts a @
                           [\<lparr> role = model, entry_text = currentOutput_r r,
                              timestamp = localeTime clk \<rparr>],
                         currentOutput := []\<rparr>
                  else a)
         else s2)"

text \<open>
  The audio part. An absent or empty payload is skipped (\<open>base64Audio && ...\<close>; the output
  audio context exists whenever the callback runs, it is created before the connection is
  opened and never unset). Otherwise the status becomes \<open>speaking\<close> and \<open>nextStartTime\<close> is
  raised to the current time before the payload is decoded; when decoding throws, the
  callback ends there with that state. A decoded buffer is started at \<open>nextStartTime\<close>,
  which then advances by the buffer's duration.
\<close>

definition audioPart :: "Clock \<Rightarrow> LiveServerMessage \<Rightarrow> Session \<Rightarrow> Session \<times> exn option" where
  "audioPart clk message s =
     (case audioData message of
        None \<Rightarrow> (s, None)
      | Some base64Audio \<Rightarrow>
          if base64Audio = [] then (s, None)
          else
            (let s1 = s\<lparr>status_s := speaking,
                        nextStartTime := max (nextStartTime s) (currentTime clk)\<rparr>
             in case decode base64Audio of
                  Inl e \<Rightarrow> (s1, Some e)
                | Inr bytes \<Rightarrow>
                    (case decodeAudioData bytes 24000 1 of
                       Inl e \<Rightarrow> (s1, Some e)
                     | Inr audioBuffer \<Rightarrow>
                         (let source = \<lparr> source_id = created s1,
                                         startAt = nextStartTime s1,
                                         duration = buffer_duration audioBuffer \<rparr>
                          in (s1\<lparr>started := started s1 @ [source],
                                 nextStartTime := nextStartTime s1 + buffer_duration audioBuffer,
                                 sources := sources s1 @ [source],
                                 created := Suc (created s1)\<rparr>, None)))))"

text \<open>
  The interruption part: every active source is stopped, the set is cleared, the clock is
  set to 0, and the test \<open>currentOutput\<close> and the committed text read the constant of \<open>r\<close>.
\<close>

definition interruptionPart :: "Render \<Rightarrow> Clock \<Rightarrow> LiveServerMessage \<Rightarrow> Session \<Rightarrow> Session" where
  "interruptionPart r clk message s =
     (if interrupted message
      then (let a = s\<lparr>stopped := stopped s @ map source_id (sources s),
                      sources := [], nextStartTime := 0, status_s := listening\<rparr>
            in if currentOutput_r r \<noteq> []
               then a\<lparr>transcripts := transcripts a @
                        [\<lparr> role = model, entry_text = currentOutput_r r @ ''...'',
                           timestamp = localeTime clk \<rparr>],
                      currentOutput := []\<rparr>
               else a)
      else s)"

text \<open>
  The callback: the state it leaves, and the exception its promise is rejected with, if
  any. A message is handled as one step.
\<close>

definition onmessage ::
  "Render \<Rightarrow> Clock \<Rightarrow> LiveServerMessage \<Rightarrow> Session \<Rightarrow> Session \<times> exn option" where
  "onmessage r clk message =
     seq (stmt (transcriptionPart r clk message))
    (seq (audioPart clk message)
         (stmt (interruptionPart r clk message)))"

text \<open>The \<open>ended\<close> listener of one source node.\<close>

definition onended :: "nat \<Rightarrow> Session \<Rightarrow> Session" where
  "onended sid s =
     (let remaining = filter (\<lambda>src. source_id src \<noteq> sid) (sources s)
      in s\<lparr>sources := remaining,
            status_s := (if remaining = [] then listening else status_s s)\<rparr>)"

text \<open>
  The events of a session in the order they are handled; the next event finds the state
  the last one left, whether or not its callback threw.
\<close>

datatype Event = Message Clock LiveServerMessage | Ended nat

fun handle :: "Render \<Rightarrow> Event \<Rightarrow> Session \<Rightarrow> Session" where
  "handle r (Message clk message) s = fst (onmessage r clk message s)"
| "handle r (Ended sid) s = onended sid s"

definition run :: "Render \<Rightarrow> Event list \<Rightarrow> Session \<Rightarrow> Session" where
  "run r evs s = fold (handle r) evs s"

subsection \<open>Predicates on messages and schedules\<close>

text \<open>A message carries audio when its payload is present and not empty.\<close>

definition carriesAudio :: "LiveServerMessage \<Rightarrow> bool" where
  "carriesAudio message = (case audioData message of None \<Rightarrow> False | Some b \<Rightarrow> b \<noteq> [])"

text \<open>The duration of the buffer a message delivers, when it carries audio that decodes.\<close>

definition inboundBuffer :: "LiveServerMessage \<Rightarrow> real option" where
  "inboundBuffer message =
     (case audioData message of
        None \<Rightarrow> None
      | Some base64Audio \<Rightarrow>
          if base64Audio = [] then None
          else (case decode base64Audio of
                  Inl e \<Rightarrow> None
                | Inr bytes \<Rightarrow>
                    (case decodeAudioData bytes 24000 1 of
                       Inl e \<Rightarrow> None
                     | Inr audioBuffer \<Rightarrow> Some (buffer_duration audioBuffer))))"

text \<open>A message whose audio, if it carries any, decodes.\<close>

definition decodable :: "LiveServerMessage \<Rightarrow> bool" where
  "decodable message = (\<not> carriesAudio message \<or> inboundBuffer message \<noteq> None)"

text \<open>
  Events that bring neither audio nor an interruption: text deltas, turn-complete signals
  and \<open>ended\<close> events.
\<close>

fun quiet :: "Event \<Rightarrow> bool" where
  "quiet (Message clk message) = (\<not> carriesAudio message \<and> \<not> interrupted message)"
| "quiet (Ended sid) = True"

definition source_end :: "ScheduledSource \<Rightarrow> real" where
  "source_end src = startAt src + duration src"

text \<open>Each source ends before every source scheduled after it starts.\<close>

definition back_to_back :: "ScheduledSource list \<Rightarrow> bool" where
  "back_to_back srcs = sorted_wrt (\<lambda>a b. source_end a \<le> startAt b) srcs"

text \<open>The intervals \<open>[start, end)\<close> of two sources have no point in common.\<close>

definition disjoint_sources :: "ScheduledSource \<Rightarrow> ScheduledSource \<Rightarrow> bool" where
  "disjoint_sources a b = (source_end a \<le> startAt b \<or> source_end b \<le> startAt a)"

definition schedule_ok :: "Session \<Rightarrow> bool" where
  "schedule_ok s =
     (back_to_back (sources s) \<and> list_all (\<lambda>src. source_end src \<le> nextStartTime s) (sources s))"

subsection \<open>Ending a call (stopSession, the recorder's onstop and the reader's onloadend)\<close>

text \<open>
  The lead handed to \<open>onUpdateLead\<close> once the recording has been read as a data URI, if any.
  \<open>recorderActive\<close>: a media recorder exists and is not inactive.
\<close>

definition stopSession :: "Render \<Rightarrow> bool \<Rightarrow> string \<Rightarrow> Lead option" where
  "stopSession r recorderActive base64data =
     (if recorderActive
      then (let newStatus0 = COMPLETED;
                newSentiment0 = Neutral;
                (newStatus, newSentiment) =
                  (if length (transcripts_r r) > 6 then (newStatus0, Positive)
                   else if length (transcripts_r r) < 2 then (FAILED, Negative)
                   else (newStatus0, newSentiment0))
            in if onUpdateLead r
               then (case activeLead r of
                       None \<Rightarrow> None
                     | Some al \<Rightarrow>
                         Some (al\<lparr>status := newStatus,
                                  sentiment := Some newSentiment,
                                  transcript := Some (transcripts_r r),
                                  lastContacted := Some ''Just now'',
                                  recording := Some base64data\<rparr>))
               else None)
      else None)"

subsection \<open>Post-call analysis (processPostCall)\<close>

datatype Effect = GenerateContent string | UpdateLead Lead | Learn KnowledgeSnippet

text \<open>
  The outcome of one \<open>generateContent\<close> call followed by \<open>JSON.parse\<close> of its text: the call
  is rejected, the text does not parse to an object, or it parses.
\<close>

datatype 'a Response = Rejected | Unparseable | Parsed 'a

record Analysis =
  summary_a :: string
  sentiment_a :: "Sentiment option"
  outcome :: string

record TrainingData =
  found :: bool
  category_t :: Category
  content_t :: string

text \<open>
  The state the pipeline writes, and the calls it makes to its collaborators, in order.
  The construction of the client, before both \<open>try\<close> blocks, is taken to succeed.
\<close>

record PostCall =
  summary :: "string option"
  isSummarizing :: bool
  learningStatus :: "string option"
  effects :: "Effect list"

definition fullTranscript :: "Render \<Rightarrow> TranscriptEntry list" where
  "fullTranscript r =
     transcripts_r r
     @ (if trim (currentInput_r r) \<noteq> []
        then [\<lparr> role = user, entry_text = currentInput_r r, timestamp = ''now'' \<rparr>] else [])
     @ (if trim (currentOutput_r r) \<noteq> []
        then [\<lparr> role = model, entry_text = currentOutput_r r, timestamp = ''now'' \<rparr>] else [])"

definition classificationTry ::
  "Render \<Rightarrow> Lead option \<Rightarrow> Analysis Response \<Rightarrow> PostCall \<Rightarrow> PostCall \<times> exn option" where
  "classificationTry r latestLead summaryResponse p0 =
     (let p1 = p0\<lparr>effects := effects p0 @ [GenerateContent ''gemini-flash-lite-latest'']\<rparr>
      in case summaryResponse of
           Rejected \<Rightarrow> (p1, Some ApiError)
         | Unparseable \<Rightarrow> (p1, Some SyntaxError)
         | Parsed analysis \<Rightarrow>
             (let p2 = p1\<lparr>summary := Some (summary_a analysis)\<rparr>
              in case latestLead of
                   None \<Rightarrow> (p2, None)
                 | Some currentLeadState \<Rightarrow>
                     if outcome analysis = ''BOOKED'' \<and> onUpdateLead r
                     then (p2\<lparr>effects := effects p2 @
                               [UpdateLead (currentLeadState\<lparr>status := BOOKED,
                                                            sentiment := sentiment_a analysis,
                                                            score := 100\<rparr>)]\<rparr>, None)
                     else (p2, None)))"

definition extractionTry ::
  "Render \<Rightarrow> TrainingData Response \<Rightarrow> string \<Rightarrow> string \<Rightarrow> PostCall \<Rightarrow> PostCall \<times> exn option" where
  "extractionTry r trainingResponse nowId today p0 =
     (let p1 = p0\<lparr>effects := effects p0 @ [GenerateContent ''gemini-3-pro-preview'']\<rparr>
      in case trainingResponse of
           Rejected \<Rightarrow> (p1, Some ApiError)
         | Unparseable \<Rightarrow> (p1, Some SyntaxError)
         | Parsed trainingData \<Rightarrow>
             if found trainingData \<and> content_t trainingData \<noteq> []
             then (case effectiveLead r of
                     None \<Rightarrow> (p1, Some TypeError)
                   | Some el \<Rightarrow>
                       (p1\<lparr>effects := effects p1 @
                              [Learn \<lparr> snippet_id = nowId,
                                       category = category_t trainingData,
                                       content = content_t trainingData,
                                       sourceRestaurant = restaurantName el,
                                       timestamp_k = today \<rparr>],
                            learningStatus :=
                              Some ''Success! New strategy added to Knowledge Base.''\<rparr>, None))
             else (p1\<lparr>learningStatus := Some ''No new strategies detected.''\<rparr>, None))"

text \<open>The two \<open>try\<close> blocks with their \<open>catch\<close> handlers.\<close>

definition classificationStage ::
  "Render \<Rightarrow> Lead option \<Rightarrow> Analysis Response \<Rightarrow> PostCall \<Rightarrow> PostCall \<times> exn option" where
  "classificationStage r latestLead summaryResponse =
     try_catch (classificationTry r latestLead summaryResponse)
       (\<lambda>e. stmt (\<lambda>p. p\<lparr>summary := Some ''Analysis temporarily unavailable.''\<rparr>))"

definition extractionStage ::
  "Render \<Rightarrow> TrainingData Response \<Rightarrow> string \<Rightarrow> string \<Rightarrow> PostCall \<Rightarrow> PostCall \<times> exn option" where
  "extractionStage r trainingResponse nowId today =
     try_catch (extractionTry r trainingResponse nowId today)
       (\<lambda>e. stmt (\<lambda>p. p\<lparr>learningStatus := Some ''Training skipped due to API timeout.''\<rparr>))"

definition processPostCall ::
  "Render \<Rightarrow> Lead option \<Rightarrow> Analysis Response \<Rightarrow> TrainingData Response \<Rightarrow> string \<Rightarrow> string
     \<Rightarrow> PostCall \<Rightarrow> PostCall \<times> exn option" where
  "processPostCall r latestLead summaryResponse trainingResponse nowId today p0 =
     (if fullTranscript r = [] then (p0, None)
      else
        seq (stmt (\<lambda>p. p\<lparr>isSummarizing := True, summary := None, learningStatus := None\<rparr>))
       (seq (classificationStage r latestLead summaryResponse)
       (seq (\<lambda>p. if length (fullTranscript r) > 4 \<and> onLearn r
                  then seq (stmt (\<lambda>p. p\<lparr>learningStatus :=
                                           Some ''Analyzing call for new training data...''\<rparr>))
                           (extractionStage r trainingResponse nowId today)
                           p
                  else (p, None))
            (stmt (\<lambda>p. p\<lparr>isSummarizing := False\<rparr>))))
          p0)"

definition freshPostCall :: PostCall where
  "freshPostCall =
     \<lparr> summary = None, isSummarizing = False, learningStatus = None, effects = [] \<rparr>"

section \<open>Example data\<close>

definition exampleLead :: "string \<Rightarrow> string \<Rightarrow> CallStatus \<Rightarrow> Sentiment option \<Rightarrow> Lead" where
  "exampleLead name price st se =
     \<lparr> lead_id = ''nyc-1'', restaurantName = name, contactName = ''Eric Ripert'',
       phone = ''+1 (212) 555-0100'', status = st, cuisine = ''French'',
       location = ''Manhattan, NY'', priceRange = price, lastContacted = None,
       lead_notes = Some ''Too busy at dinner'', sentiment = se, transcript = None,
       score = 85, recording = None \<rparr>"

definition exampleEntry :: "Role \<Rightarrow> string \<Rightarrow> TranscriptEntry" where
  "exampleEntry ro t = \<lparr> role = ro, entry_text = t, timestamp = ''10:15:00 AM'' \<rparr>"

definition exampleRender :: "TranscriptEntry list \<Rightarrow> string \<Rightarrow> string \<Rightarrow> Render" where
  "exampleRender ts ci co =
     \<lparr> transcripts_r = ts, currentInput_r = ci, currentOutput_r = co,
       activeLead = Some (exampleLead ''Per Se'' ''$$$$'' IN_PROGRESS None),
       effectiveLead = Some (exampleLead ''Per Se'' ''$$$$'' IN_PROGRESS None),
       onUpdateLead = True, onLearn = True \<rparr>"

definition exampleSnippet :: "string \<Rightarrow> string \<Rightarrow> Category \<Rightarrow> string \<Rightarrow> KnowledgeSnippet" where
  "exampleSnippet i src cat txt =
     \<lparr> snippet_id = i, category = cat, content = txt, sourceRestaurant = src,
       timestamp_k = ''1/2/2025'' \<rparr>"

definition exampleKb :: "KnowledgeSnippet list" where
  "exampleKb =
     [exampleSnippet ''1'' ''Masa'' closing_technique ''Offer a demo'',
      exampleSnippet ''2'' ''Masa'' closing_technique ''Send an invite'',
      exampleSnippet ''3'' ''Per Se'' closing_technique ''Ask for 15 minutes'',
      exampleSnippet ''4'' ''Masa'' objection_handling ''I know you are Busy'']"

definition exampleClock :: "real \<Rightarrow> Clock" where
  "exampleClock t = \<lparr> currentTime = t, localeTime = ''10:15:00 AM'' \<rparr>"

definition audioMessage :: "string \<Rightarrow> LiveServerMessage" where
  "audioMessage base64Audio =
     \<lparr> inputTranscription = None, outputTranscription = None, turnComplete = False,
       audioData = Some base64Audio, interrupted = False \<rparr>"

text \<open>Two zero bytes in base64: one frame of silence, 1/24000 of a second at 24 kHz.\<close>

definition examplePayload :: string where
  "examplePayload = ''AAA=''"

definition textMessage :: "string option \<Rightarrow> string option \<Rightarrow> LiveServerMessage" where
  "textMessage i out =
     \<lparr> inputTranscription = i, outputTranscription = out, turnComplete = False,
       audioData = None, interrupted = False \<rparr>"

definition turnCompleteMessage :: LiveServerMessage where
  "turnCompleteMessage =
     \<lparr> inputTranscription = None, outputTranscription = None, turnComplete = True,
       audioData = None, interrupted = False \<rparr>"

definition interruptedMessage :: LiveServerMessage where
  "interruptedMessage =
     \<lparr> inputTranscription = None, outputTranscription = None, turnComplete = False,
       audioData = None, interrupted = True \<rparr>"

definition exampleAudioEvents :: "Event list" where
  "exampleAudioEvents =
     [Message (exampleClock (1/2)) (audioMessage examplePayload),
      Message (exampleClock (1/2)) (textMessage (Some ''Hi'') None),
      Ended 7,
      Message (exampleClock (1/2)) (audioMessage examplePayload),
      Message (exampleClock 1) interruptedMessage,
      Message (exampleClock 2) turnCompleteMessage,
      Message (exampleClock (13/4)) (audioMessage examplePayload)]"

definition exampleTranscriptEvents :: "Event list" where
  "exampleTranscriptEvents =
     [Message (exampleClock 1) (textMessage (Some ''Hi'') None),
      Message (exampleClock 2) (textMessage None (Some ''Hello'')),
      Message (exampleClock 3) turnCompleteMessage]"

definition exampleBargeInEvents :: "Event list" where
  "exampleBargeInEvents =
     [Message (exampleClock 1) (textMessage None (Some ''Hello'')),
      Message (exampleClock 2) interruptedMessage]"

section \<open>Properties of the lead scorer\<close>

lemma calculateLeadScore_asPartial:
  "calculateLeadScore (asPartial l) = referenceScore (priceRange l) (status l) (sentiment l)"
  by (cases "status l"; cases "sentiment l" rule: sentimentDelta.cases)
     (simp_all add: calculateLeadScore_def asPartial_def referenceScore_def priceBase_def
        clamp_def Let_def)

lemma calculateLeadScore_range: "0 \<le> calculateLeadScore p \<and> calculateLeadScore p \<le> 100"
  by (simp add: calculateLeadScore_def Let_def)

lemma calculateLeadScore_booked: "status_p p = Some BOOKED \<Longrightarrow> calculateLeadScore p = 100"
  by (simp add: calculateLeadScore_def Let_def)

text \<open>
  Claim C1. For every lead, \<open>calculateLeadScore\<close> equals the additive reference
  definition (price base, status modifier with \<open>BOOKED\<close> overriding to 100, sentiment
  modifier unless \<open>BOOKED\<close>, clamp to 0..100). Every output, also on a partial lead, lies
  in 0..100, and status \<open>BOOKED\<close> yields 100 whatever the sentiment.
\<close>

theorem C1_lead_score_reference:
  "calculateLeadScore (asPartial l) = referenceScore (priceRange l) (status l) (sentiment l)
   \<and> 0 \<le> calculateLeadScore p \<and> calculateLeadScore p \<le> 100
   \<and> (status_p p = Some BOOKED \<longrightarrow> calculateLeadScore p = 100)"
  using calculateLeadScore_asPartial [of l] calculateLeadScore_range [of p]
    calculateLeadScore_booked [of p]
  by blast

theorem C1_lead_score_reference_witness:
  "calculateLeadScore (asPartial (exampleLead ''Per Se'' ''$$$$'' COMPLETED (Some Positive))) = 80
   \<and> status_p (asPartial (exampleLead ''Per Se'' ''$$'' BOOKED (Some Negative))) = Some BOOKED
   \<and> calculateLeadScore (asPartial (exampleLead ''Per Se'' ''$$'' BOOKED (Some Negative))) = 100"
  using C1_lead_score_reference [of "exampleLead ''Per Se'' ''$$$$'' COMPLETED (Some Positive)"
      "asPartial (exampleLead ''Per Se'' ''$$'' BOOKED (Some Negative))"]
  by (simp add: exampleLead_def asPartial_def referenceScore_def priceBase_def clamp_def)

section \<open>Properties of the lead store update\<close>

lemma handleUpdateLead_stored:
  assumes "l \<in> set (handleUpdateLead u leads)" and "lead_id l = lead_id u"
  shows "l = u\<lparr>score := calculateLeadScore (asPartial u)\<rparr>"
  using assms by (auto simp: handleUpdateLead_def Let_def)

lemma calculateLeadScore_score_update:
  "calculateLeadScore (asPartial (u\<lparr>score := k\<rparr>)) = calculateLeadScore (asPartial u)"
  by (simp add: calculateLeadScore_asPartial)

lemma handleUpdateLead_ignores_score:
  "handleUpdateLead (u\<lparr>score := k\<rparr>) leads = handleUpdateLead u leads"
  by (simp add: handleUpdateLead_def Let_def calculateLeadScore_score_update)

text \<open>
  Claim C9. Every lead that \<open>handleUpdateLead\<close> stores for the updated id is the update
  with its score replaced by \<open>calculateLeadScore\<close> of the updated fields, so the stored
  score is the scorer's value for the stored lead; the score the caller supplied has no
  influence on the result; and for the update the classification stage sends on a
  \<open>BOOKED\<close> outcome (status \<open>BOOKED\<close>, score forced to 100) the stored score is again the
  scorer's value, which is 100.
\<close>

theorem C9_stored_score_recomputed:
  "(\<forall>l \<in> set (handleUpdateLead u leads). lead_id l = lead_id u \<longrightarrow>
       l = u\<lparr>score := calculateLeadScore (asPartial u)\<rparr>
       \<and> score l = calculateLeadScore (asPartial l))
   \<and> handleUpdateLead (u\<lparr>score := k\<rparr>) leads = handleUpdateLead u leads
   \<and> (\<forall>l \<in> set (handleUpdateLead (u\<lparr>status := BOOKED, sentiment := se, score := 100\<rparr>) leads).
        lead_id l = lead_id u \<longrightarrow> score l = calculateLeadScore (asPartial l) \<and> score l = 100)"
proof (intro conjI ballI impI)
  fix l assume a: "l \<in> set (handleUpdateLead u leads)" "lead_id l = lead_id u"
  show eq: "l = u\<lparr>score := calculateLeadScore (asPartial u)\<rparr>"
    using a by (rule handleUpdateLead_stored)
  have "calculateLeadScore (asPartial l) = calculateLeadScore (asPartial u)"
    by (subst eq) (rule calculateLeadScore_score_update)
  moreover have "score l = calculateLeadScore (asPartial u)"
    by (subst eq) simp
  ultimately show "score l = calculateLeadScore (asPartial l)" by simp
next
  show "handleUpdateLead (u\<lparr>score := k\<rparr>) leads = handleUpdateLead u leads"
    by (rule handleUpdateLead_ignores_score)
next
  let ?b = "u\<lparr>status := BOOKED, sentiment := se, score := 100\<rparr>"
  fix l assume a: "l \<in> set (handleUpdateLead ?b leads)" "lead_id l = lead_id u"
  have id: "lead_id l = lead_id ?b" using a(2) by simp
  have eq: "l = ?b\<lparr>score := calculateLeadScore (asPartial ?b)\<rparr>"
    using a(1) id by (rule handleUpdateLead_stored)
  have b: "calculateLeadScore (asPartial ?b) = 100"
    by (rule calculateLeadScore_booked) (simp add: asPartial_def)
  have s: "score l = calculateLeadScore (asPartial ?b)"
    by (subst eq) simp
  have "calculateLeadScore (asPartial l) = calculateLeadScore (asPartial ?b)"
    by (subst eq) (rule calculateLeadScore_score_update)
  with s show "score l = calculateLeadScore (asPartial l)" by simp
  from s b show "score l = 100" by simp
qed

theorem C9_stored_score_recomputed_witness:
  "handleUpdateLead (exampleLead ''Per Se'' ''$$$$'' COMPLETED (Some Positive))
       [exampleLead ''Per Se'' ''$$$$'' PENDING None]
     = [(exampleLead ''Per Se'' ''$$$$'' COMPLETED (Some Positive))\<lparr>score := 80\<rparr>]
   \<and> lead_id ((exampleLead ''Per Se'' ''$$$$'' COMPLETED (Some Positive))\<lparr>score := 80\<rparr>)
       = lead_id (exampleLead ''Per Se'' ''$$$$'' COMPLETED (Some Positive))
   \<and> calculateLeadScore
         (asPartial ((exampleLead ''Per Se'' ''$$$$'' COMPLETED (Some Positive))\<lparr>score := 80\<rparr>))
       = 80
   \<and> map score
         (handleUpdateLead
            ((exampleLead ''Per Se'' ''$$$$'' COMPLETED (Some Positive))
               \<lparr>status := BOOKED, sentiment := Some Negative, score := 100\<rparr>)
            [exampleLead ''Per Se'' ''$$$$'' PENDING None])
       = [100]"
  using C9_stored_score_recomputed [of "exampleLead ''Per Se'' ''$$$$'' COMPLETED (Some Positive)"
      "[exampleLead ''Per Se'' ''$$$$'' PENDING None]" 85 "Some Negative"]
  by (simp add: handleUpdateLead_def exampleLead_def calculateLeadScore_asPartial
        referenceScore_def priceBase_def clamp_def)

section \<open>Properties of the knowledge retriever\<close>

lemma insert_cmp_insort_key:
  "insert_cmp (\<lambda>a b. key b - key a) x ys = insort_key (\<lambda>i. - key i :: int) x ys"
  by (induction ys) simp_all

lemma sort_cmp_sort_key:
  "sort_cmp (\<lambda>a b. key b - key a) xs = sort_key (\<lambda>i. - key i :: int) xs"
  by (induction xs) (simp_all add: sort_cmp_def insert_cmp_insort_key)

lemma insort_key_map:
  "insort_key f (g x) (map g ys) = map g (insort_key (\<lambda>y. f (g y)) x ys)"
  by (induction ys) simp_all

lemma sort_key_map: "sort_key f (map g xs) = map g (sort_key (\<lambda>y. f (g y)) xs)"
  by (induction xs) (simp_all add: insort_key_map)

lemma fold_keywords:
  "fold (\<lambda>word sc. if P word then sc + 10 else sc) ws (acc::int)
     = acc + 10 * int (length (filter P ws))"
  by (induction ws arbitrary: acc) simp_all

lemma snippetScore_additive: "snippetScore lead sn = additiveScoreGuarded lead sn"
  by (simp add: snippetScore_def additiveScoreGuarded_def sharedKeywords_def Let_def
        fold_keywords)

lemma snippetScore_positive: "1 \<le> snippetScore lead sn"
  by (simp add: snippetScore_additive additiveScoreGuarded_def)

lemma snippetScore_exact_match:
  "sourceRestaurant sn = restaurantName lead \<Longrightarrow> 51 \<le> snippetScore lead sn"
  by (simp add: snippetScore_additive additiveScoreGuarded_def)

text \<open>The ranking: the knowledge base ordered by descending score, ties in place.\<close>

lemma ranked_scored:
  "sort_cmp (\<lambda>a b. item_score b - item_score a) (scoredSnippets lead kb)
     = map (\<lambda>sn. \<lparr> snippet = sn, item_score = snippetScore lead sn \<rparr>)
         (sort_key (\<lambda>sn. - snippetScore lead sn) kb)"
  by (simp add: sort_cmp_sort_key scoredSnippets_def sort_key_map)

lemma selectRelevantSnippets_ranked:
  "selectRelevantSnippets lead kb
     = take 3 (filter (\<lambda>sn. 0 < snippetScore lead sn)
                 (sort_key (\<lambda>sn. - snippetScore lead sn) kb))"
  by (simp add: selectRelevantSnippets_def ranked_scored filter_map take_map o_def)

lemma selectRelevantSnippets_top3:
  "selectRelevantSnippets lead kb = take 3 (sort_key (\<lambda>sn. - snippetScore lead sn) kb)"
proof -
  have "filter (\<lambda>sn. 0 < snippetScore lead sn) xs = xs" for xs
    using snippetScore_positive [of lead] by (induction xs) (auto simp: less_le_trans [OF zero_less_one])
  then show ?thesis by (simp add: selectRelevantSnippets_ranked)
qed

lemma prefix_filter_take: "prefix (filter P (take n xs)) (filter P xs)"
proof -
  have "filter P xs = filter P (take n xs) @ filter P (drop n xs)"
    by (metis append_take_drop_id filter_append)
  then show ?thesis by (simp add: prefix_def)
qed

lemma ranking_sorted:
  "sorted_wrt (\<lambda>a b. key b \<le> key a) (sort_key (\<lambda>sn. - key sn :: int) xs)"
proof -
  have "sorted (map (\<lambda>sn. - key sn) (sort_key (\<lambda>sn. - key sn) xs))"
    by (rule sorted_sort_key)
  then show ?thesis by (simp add: sorted_wrt_map)
qed

lemma ranking_stable:
  "filter (\<lambda>sn. key sn = k) (sort_key (\<lambda>sn. - key sn :: int) xs) = filter (\<lambda>sn. key sn = k) xs"
  using sort_key_stable [of "\<lambda>sn. - key sn" "- k" xs] by simp

lemma exampleKb_selection:
  "selectRelevantSnippets (exampleLead ''Per Se'' ''$$$$'' FAILED None) exampleKb
     = [exampleSnippet ''3'' ''Per Se'' closing_technique ''Ask for 15 minutes'',
        exampleSnippet ''4'' ''Masa'' objection_handling ''I know you are Busy'',
        exampleSnippet ''1'' ''Masa'' closing_technique ''Offer a demo'']"
  by code_simp

lemma exampleKb_top_score:
  "snippetScore (exampleLead ''Per Se'' ''$$$$'' FAILED None)
     (exampleSnippet ''3'' ''Per Se'' closing_technique ''Ask for 15 minutes'') = 51"
  by code_simp

text \<open>
  Claim C2. For every lead and knowledge base, \<open>selectRelevantSnippets\<close> returns at most 3
  snippets, in order of non-increasing retrieval score; every returned snippet is a snippet
  of the knowledge base with a score above 0; for each score value, the returned snippets
  of that score are the first ones of that score in the knowledge base, in its order; and
  calls on equal inputs return equal results.
\<close>

theorem C2_selection_ranked:
  "length (selectRelevantSnippets lead kb) \<le> 3
   \<and> sorted_wrt (\<lambda>a b. snippetScore lead b \<le> snippetScore lead a)
        (selectRelevantSnippets lead kb)
   \<and> (\<forall>sn \<in> set (selectRelevantSnippets lead kb). 0 < snippetScore lead sn \<and> sn \<in> set kb)
   \<and> (\<forall>k. prefix (filter (\<lambda>sn. snippetScore lead sn = k) (selectRelevantSnippets lead kb))
                   (filter (\<lambda>sn. snippetScore lead sn = k) kb))
   \<and> (lead' = lead \<and> kb' = kb \<longrightarrow>
        selectRelevantSnippets lead' kb' = selectRelevantSnippets lead kb)"
proof -
  let ?sc = "snippetScore lead"
  let ?ranked = "sort_key (\<lambda>sn. - ?sc sn) kb"
  let ?kept = "filter (\<lambda>sn. 0 < ?sc sn) ?ranked"
  have sel: "selectRelevantSnippets lead kb = take 3 ?kept"
    by (rule selectRelevantSnippets_ranked)
  have size: "length (selectRelevantSnippets lead kb) \<le> 3"
    by (simp add: sel)
  have "sorted_wrt (\<lambda>a b. ?sc b \<le> ?sc a) ?kept"
    by (intro sorted_wrt_filter ranking_sorted)
  then have order: "sorted_wrt (\<lambda>a b. ?sc b \<le> ?sc a) (selectRelevantSnippets lead kb)"
    unfolding sel by (rule sorted_wrt_take)
  have members: "\<forall>sn \<in> set (selectRelevantSnippets lead kb). 0 < ?sc sn \<and> sn \<in> set kb"
  proof
    fix sn assume "sn \<in> set (selectRelevantSnippets lead kb)"
    then have "sn \<in> set ?kept" unfolding sel by (rule in_set_takeD)
    then show "0 < ?sc sn \<and> sn \<in> set kb" by simp
  qed
  have ties: "prefix (filter (\<lambda>sn. ?sc sn = k) (selectRelevantSnippets lead kb))
                     (filter (\<lambda>sn. ?sc sn = k) kb)" for k
  proof -
    have "filter (\<lambda>sn. ?sc sn = k) ?kept = filter (\<lambda>sn. 0 < ?sc sn) (filter (\<lambda>sn. ?sc sn = k) ?ranked)"
      by (simp add: conj_commute)
    also have "\<dots> = filter (\<lambda>sn. 0 < ?sc sn) (filter (\<lambda>sn. ?sc sn = k) kb)"
      by (simp only: ranking_stable)
    also have "\<dots> = filter (\<lambda>sn. ?sc sn = k) kb"
      using snippetScore_positive [of lead] by (auto intro!: filter_True simp: less_le_trans [OF zero_less_one])
    finally have "filter (\<lambda>sn. ?sc sn = k) ?kept = filter (\<lambda>sn. ?sc sn = k) kb" .
    then show ?thesis
      unfolding sel using prefix_filter_take [of "\<lambda>sn. ?sc sn = k" 3 ?kept] by simp
  qed
  from size order members ties show ?thesis by blast
qed

theorem C2_selection_ranked_witness:
  "length (selectRelevantSnippets (exampleLead ''Per Se'' ''$$$$'' FAILED None) exampleKb) = 3
   \<and> exampleSnippet ''3'' ''Per Se'' closing_technique ''Ask for 15 minutes''
       \<in> set (selectRelevantSnippets (exampleLead ''Per Se'' ''$$$$'' FAILED None) exampleKb)
   \<and> 0 < snippetScore (exampleLead ''Per Se'' ''$$$$'' FAILED None)
           (exampleSnippet ''3'' ''Per Se'' closing_technique ''Ask for 15 minutes'')
   \<and> exampleSnippet ''3'' ''Per Se'' closing_technique ''Ask for 15 minutes'' \<in> set exampleKb"
  using C2_selection_ranked [of "exampleLead ''Per Se'' ''$$$$'' FAILED None" exampleKb
      "exampleLead ''Per Se'' ''$$$$'' FAILED None" exampleKb]
    exampleKb_selection
  by simp

text \<open>
  Claim C3, as the specification states it, fails: for a lead whose cuisine is the empty
  string every content contains the cuisine, so the stated sum includes the 15, while the
  source guards the cuisine term with \<open>lead.cuisine &&\<close> and adds nothing.
\<close>

theorem C3_cuisine_counterexample:
  "snippetScore ((exampleLead ''Per Se'' ''$$$'' PENDING None)\<lparr>cuisine := []\<rparr>)
       (exampleSnippet ''1'' ''Masa'' closing_technique ''Offer a demo'') = 1
   \<and> additiveScore ((exampleLead ''Per Se'' ''$$$'' PENDING None)\<lparr>cuisine := []\<rparr>)
       (exampleSnippet ''1'' ''Masa'' closing_technique ''Offer a demo'') = 16"
  by code_simp

text \<open>
  Claim C3, amended. The retrieval score of a snippet is the sum of: 50 if its source
  restaurant equals the lead's restaurant name; 15 if the lead's cuisine is not empty and
  the content contains it, both in lower case; 10 for each keyword of the fixed vocabulary
  found both in the lead's combined context and in the content; 5 if the lead's status is
  \<open>FAILED\<close> and the category is \<open>objection_handling\<close>; 5 if the price tier is \<open>$$$$\<close> and
  the category is \<open>value_proposition\<close>; and 1. For a knowledge base of one snippet whose
  source restaurant is the lead's, retrieval returns that snippet, with a score of at
  least 51.
\<close>

theorem C3_score_additive_guarded:
  "snippetScore lead sn = additiveScoreGuarded lead sn
   \<and> scoredSnippets lead kb
       = map (\<lambda>s. \<lparr> snippet = s, item_score = additiveScoreGuarded lead s \<rparr>) kb
   \<and> (sourceRestaurant sn = restaurantName lead \<longrightarrow>
        selectRelevantSnippets lead [sn] = [sn] \<and> 51 \<le> snippetScore lead sn)"
  by (simp add: snippetScore_additive [symmetric] scoredSnippets_def selectRelevantSnippets_top3
        snippetScore_exact_match)

theorem C3_score_additive_guarded_witness:
  "sourceRestaurant (exampleSnippet ''3'' ''Per Se'' closing_technique ''Ask for 15 minutes'')
     = restaurantName (exampleLead ''Per Se'' ''$$$$'' FAILED None)
   \<and> selectRelevantSnippets (exampleLead ''Per Se'' ''$$$$'' FAILED None)
         [exampleSnippet ''3'' ''Per Se'' closing_technique ''Ask for 15 minutes'']
       = [exampleSnippet ''3'' ''Per Se'' closing_technique ''Ask for 15 minutes'']
   \<and> additiveScoreGuarded (exampleLead ''Per Se'' ''$$$$'' FAILED None)
         (exampleSnippet ''3'' ''Per Se'' closing_technique ''Ask for 15 minutes'') = 51"
  using C3_score_additive_guarded [of "exampleLead ''Per Se'' ''$$$$'' FAILED None"
      "exampleSnippet ''3'' ''Per Se'' closing_technique ''Ask for 15 minutes''" "[]"]
    exampleKb_top_score
  by (simp add: exampleSnippet_def exampleLead_def)

text \<open>
  Claim C10. Every retrieval score is at least 1, so the filter \<open>score > 0\<close> removes
  nothing from the ranked list, and the number of snippets returned is the smaller of 3
  and the size of the knowledge base.
\<close>

theorem C10_filter_keeps_all:
  "1 \<le> snippetScore lead sn
   \<and> filter (\<lambda>item. item_score item > 0)
        (sort_cmp (\<lambda>a b. item_score b - item_score a) (scoredSnippets lead kb))
      = sort_cmp (\<lambda>a b. item_score b - item_score a) (scoredSnippets lead kb)
   \<and> length (selectRelevantSnippets lead kb) = min 3 (length kb)"
proof -
  have "filter (\<lambda>item. item_score item > 0)
        (sort_cmp (\<lambda>a b. item_score b - item_score a) (scoredSnippets lead kb))
      = sort_cmp (\<lambda>a b. item_score b - item_score a) (scoredSnippets lead kb)"
    unfolding ranked_scored
    using snippetScore_positive [of lead]
    by (auto intro!: filter_True simp: less_le_trans [OF zero_less_one])
  moreover have "length (selectRelevantSnippets lead kb) = min 3 (length kb)"
    by (simp add: selectRelevantSnippets_top3 min.commute)
  ultimately show ?thesis using snippetScore_positive [of lead sn] by simp
qed

theorem C10_filter_keeps_all_witness:
  "length (selectRelevantSnippets (exampleLead ''Per Se'' ''$$$$'' FAILED None) exampleKb) = 3
   \<and> length exampleKb = 4"
  using C10_filter_keeps_all [of "exampleLead ''Per Se'' ''$$$$'' FAILED None"
      "exampleSnippet ''1'' ''Masa'' closing_technique ''Offer a demo''" exampleKb]
  by (simp add: exampleKb_def)

section \<open>Properties of the playback schedule\<close>

lemma examplePayload_bytes: "atob examplePayload = Some [CHR 0x00, CHR 0x00]"
  by code_simp

lemma examplePayload_buffer: "inboundBuffer (audioMessage examplePayload) = Some (1/24000)"
  by (simp add: inboundBuffer_def audioMessage_def decode_def examplePayload_bytes
        decodeAudioData_def buffer_duration_def)
    (simp add: examplePayload_def)

lemma onmessage_parts:
  "onmessage r clk m s =
     (case audioPart clk m (transcriptionPart r clk m s) of
        (s', None) \<Rightarrow> (interruptionPart r clk m s', None)
      | (s', Some e) \<Rightarrow> (s', Some e))"
  by (simp add: onmessage_def seq_def stmt_def split: prod.splits option.splits)

text \<open>The transcription part leaves the schedule alone.\<close>

lemma transcriptionPart_schedule:
  "nextStartTime (transcriptionPart r clk m s) = nextStartTime s"
  "sources (transcriptionPart r clk m s) = sources s"
  "started (transcriptionPart r clk m s) = started s"
  "stopped (transcriptionPart r clk m s) = stopped s"
  "created (transcriptionPart r clk m s) = created s"
  by (simp_all add: transcriptionPart_def Let_def split: option.splits)

lemma interruptionPart_created: "created (interruptionPart r clk m s) = created s"
  by (simp add: interruptionPart_def Let_def)

lemma decodeAudioData_duration:
  "decodeAudioData bytes 24000 1 = Inr b \<Longrightarrow> 0 < buffer_duration b"
  by (auto simp: decodeAudioData_def buffer_duration_def Let_def split: if_splits)

lemma inboundBuffer_positive: "inboundBuffer m = Some d \<Longrightarrow> 0 < d"
  by (auto simp: inboundBuffer_def decodeAudioData_duration split: option.splits if_splits sum.splits)

lemma inboundBuffer_carries: "inboundBuffer m = Some d \<Longrightarrow> carriesAudio m"
  by (auto simp: inboundBuffer_def carriesAudio_def split: option.splits if_splits)

lemma audioPart_buffer:
  assumes "inboundBuffer m = Some d"
  shows "audioPart clk m s =
     (s\<lparr>status_s := speaking,
        nextStartTime := max (nextStartTime s) (currentTime clk) + d,
        started := started s @ [\<lparr> source_id = created s,
                                   startAt = max (nextStartTime s) (currentTime clk),
                                   duration = d \<rparr>],
        sources := sources s @ [\<lparr> source_id = created s,
                                   startAt = max (nextStartTime s) (currentTime clk),
                                   duration = d \<rparr>],
        created := Suc (created s)\<rparr>, None)"
proof -
  from assms obtain base64Audio bytes b where
    p: "audioData m = Some base64Audio" "base64Audio \<noteq> []"
      "decode base64Audio = Inr bytes" "decodeAudioData bytes 24000 1 = Inr b"
      "d = buffer_duration b"
    by (auto simp: inboundBuffer_def split: option.splits if_splits sum.splits)
  show ?thesis
    using p by (simp add: audioPart_def Let_def)
qed

lemma audioPart_silent:
  assumes "\<not> carriesAudio m"
  shows "audioPart clk m s = (s, None)"
  using assms by (auto simp: carriesAudio_def audioPart_def split: option.splits)

lemma audioPart_undecodable:
  assumes "carriesAudio m" and "inboundBuffer m = None"
  shows "fst (audioPart clk m s) =
           s\<lparr>status_s := speaking, nextStartTime := max (nextStartTime s) (currentTime clk)\<rparr>
         \<and> snd (audioPart clk m s) \<noteq> None"
proof -
  from assms(1) obtain base64Audio where
    p: "audioData m = Some base64Audio" "base64Audio \<noteq> []"
    by (auto simp: carriesAudio_def split: option.splits)
  show ?thesis
  proof (cases "decode base64Audio")
    case (Inl e)
    with p show ?thesis by (simp add: audioPart_def Let_def)
  next
    case (Inr bytes)
    with assms(2) p obtain e where "decodeAudioData bytes 24000 1 = Inl e"
      by (cases "decodeAudioData bytes 24000 1") (auto simp: inboundBuffer_def)
    with Inr p show ?thesis by (simp add: audioPart_def Let_def)
  qed
qed

lemma interruptionPart_schedule:
  "sources (interruptionPart r clk m s) = (if interrupted m then [] else sources s)"
  "nextStartTime (interruptionPart r clk m s) = (if interrupted m then 0 else nextStartTime s)"
  "started (interruptionPart r clk m s) = started s"
  "stopped (interruptionPart r clk m s)
     = (if interrupted m then stopped s @ map source_id (sources s) else stopped s)"
  by (simp_all add: interruptionPart_def Let_def)

text \<open>A message that delivers a buffer.\<close>

lemma onmessage_buffer:
  assumes "inboundBuffer m = Some d"
  shows "snd (onmessage r clk m s) = None"
    and "started (fst (onmessage r clk m s))
           = started s @ [\<lparr> source_id = created s,
                              startAt = max (nextStartTime s) (currentTime clk),
                              duration = d \<rparr>]"
    and "sources (fst (onmessage r clk m s))
           = (if interrupted m then []
              else sources s @ [\<lparr> source_id = created s,
                                    startAt = max (nextStartTime s) (currentTime clk),
                                    duration = d \<rparr>])"
    and "nextStartTime (fst (onmessage r clk m s))
           = (if interrupted m then 0 else max (nextStartTime s) (currentTime clk) + d)"
    and "created (fst (onmessage r clk m s)) = Suc (created s)"
    and "\<not> interrupted m \<Longrightarrow> stopped (fst (onmessage r clk m s)) = stopped s"
  by (simp_all add: onmessage_parts audioPart_buffer [OF assms] interruptionPart_schedule
        interruptionPart_created transcriptionPart_schedule)

text \<open>A message without audio.\<close>

lemma onmessage_silent:
  assumes "\<not> carriesAudio m"
  shows "snd (onmessage r clk m s) = None"
    and "started (fst (onmessage r clk m s)) = started s"
    and "sources (fst (onmessage r clk m s)) = (if interrupted m then [] else sources s)"
    and "nextStartTime (fst (onmessage r clk m s))
           = (if interrupted m then 0 else nextStartTime s)"
    and "stopped (fst (onmessage r clk m s))
           = (if interrupted m then stopped s @ map source_id (sources s) else stopped s)"
    and "created (fst (onmessage r clk m s)) = created s"
  by (simp_all add: onmessage_parts audioPart_silent [OF assms] interruptionPart_schedule
        interruptionPart_created transcriptionPart_schedule)

text \<open>
  A message whose audio does not decode: the callback throws after raising the clock to
  the current time, and its interruption part is not reached.
\<close>

lemma onmessage_undecodable:
  assumes "carriesAudio m" and "inboundBuffer m = None"
  shows "snd (onmessage r clk m s) \<noteq> None"
    and "started (fst (onmessage r clk m s)) = started s"
    and "sources (fst (onmessage r clk m s)) = sources s"
    and "stopped (fst (onmessage r clk m s)) = stopped s"
    and "nextStartTime (fst (onmessage r clk m s)) = max (nextStartTime s) (currentTime clk)"
proof -
  let ?t = "transcriptionPart r clk m s"
  obtain e where e: "snd (audioPart clk m ?t) = Some e"
    using audioPart_undecodable [OF assms, of clk ?t] by auto
  have f: "fst (audioPart clk m ?t)
      = ?t\<lparr>status_s := speaking, nextStartTime := max (nextStartTime ?t) (currentTime clk)\<rparr>"
    using audioPart_undecodable [OF assms, of clk ?t] by simp
  have o: "onmessage r clk m s = (fst (audioPart clk m ?t), Some e)"
    using e by (cases "audioPart clk m ?t") (simp add: onmessage_parts)
  show "snd (onmessage r clk m s) \<noteq> None"
    and "started (fst (onmessage r clk m s)) = started s"
    and "sources (fst (onmessage r clk m s)) = sources s"
    and "stopped (fst (onmessage r clk m s)) = stopped s"
    and "nextStartTime (fst (onmessage r clk m s)) = max (nextStartTime s) (currentTime clk)"
    by (simp_all add: o f transcriptionPart_schedule)
qed

lemma onmessage_interrupted:
  assumes "interrupted m" and "decodable m"
  shows "sources (fst (onmessage r clk m s)) = []"
    and "nextStartTime (fst (onmessage r clk m s)) = 0"
    and "set (map source_id (sources s)) \<subseteq> set (stopped (fst (onmessage r clk m s)))"
    and "snd (onmessage r clk m s) = None"
proof -
  show "sources (fst (onmessage r clk m s)) = []"
    and "nextStartTime (fst (onmessage r clk m s)) = 0"
    and "snd (onmessage r clk m s) = None"
    using assms onmessage_buffer [of m _ r clk s] onmessage_silent [of m r clk s]
    by (auto simp: decodable_def)
  show "set (map source_id (sources s)) \<subseteq> set (stopped (fst (onmessage r clk m s)))"
  proof (cases "carriesAudio m")
    case False
    then show ?thesis using assms(1) by (simp add: onmessage_silent)
  next
    case True
    with assms(2) obtain d where d: "inboundBuffer m = Some d"
      by (auto simp: decodable_def)
    show ?thesis
      using assms(1)
      by (auto simp: onmessage_parts audioPart_buffer [OF d] interruptionPart_schedule
            transcriptionPart_schedule)
  qed
qed

text \<open>Events that bring neither audio nor an interruption leave the clock and the log alone.\<close>

lemma handle_quiet:
  assumes "quiet ev"
  shows "nextStartTime (handle r ev s) = nextStartTime s"
    and "started (handle r ev s) = started s"
    and "stopped (handle r ev s) = stopped s"
    and "set (sources (handle r ev s)) \<subseteq> set (sources s)"
  using assms by (cases ev; auto simp: onmessage_silent onended_def Let_def)+

lemma run_quiet:
  assumes "list_all quiet qs"
  shows "nextStartTime (run r qs s) = nextStartTime s
       \<and> started (run r qs s) = started s
       \<and> stopped (run r qs s) = stopped s
       \<and> set (sources (run r qs s)) \<subseteq> set (sources s)"
  using assms
proof (induction qs arbitrary: s)
  case Nil
  then show ?case by (simp add: run_def)
next
  case (Cons ev qs)
  then have q: "quiet ev" and qs: "list_all quiet qs" by simp_all
  have step: "run r (ev # qs) s = run r qs (handle r ev s)"
    by (simp add: run_def)
  show ?case
    unfolding step
    using Cons.IH [OF qs, of "handle r ev s"] handle_quiet [OF q, of r s]
    by auto
qed

lemma run_append: "run r (xs @ ys) s = run r ys (run r xs s)"
  by (simp add: run_def)

lemma run_single: "run r [ev] s = handle r ev s"
  by (simp add: run_def)


lemma back_to_back_snoc:
  "back_to_back (srcs @ [x]) = (back_to_back srcs \<and> (\<forall>a \<in> set srcs. source_end a \<le> startAt x))"
  by (auto simp: back_to_back_def sorted_wrt_append)


lemma schedule_ok_empty: "sources s = [] \<Longrightarrow> schedule_ok s"
  by (simp add: schedule_ok_def back_to_back_def)


lemma schedule_ok_later:
  assumes "schedule_ok s" and "sources s' = sources s" and "nextStartTime s \<le> nextStartTime s'"
  shows "schedule_ok s'"
  using assms by (auto simp: schedule_ok_def list_all_iff)


lemma schedule_ok_buffer:
  assumes ok: "schedule_ok s" and d: "0 < d"
    and srcs: "sources s' = sources s @ [\<lparr> source_id = i,
                                            startAt = max (nextStartTime s) now,
                                            duration = d \<rparr>]"
    and nst: "nextStartTime s' = max (nextStartTime s) now + d"
  shows "schedule_ok s'"
proof -
  let ?start = "max (nextStartTime s) now"
  let ?new = "\<lparr> source_id = i, startAt = ?start, duration = d \<rparr>"
  have ends: "\<forall>a \<in> set (sources s). source_end a \<le> nextStartTime s"
    using ok by (simp add: schedule_ok_def list_all_iff)
  have before: "\<forall>a \<in> set (sources s). source_end a \<le> ?start"
  proof
    fix a assume "a \<in> set (sources s)"
    with ends have "source_end a \<le> nextStartTime s" by blast
    then show "source_end a \<le> ?start" by simp
  qed
  have after: "\<forall>a \<in> set (sources s). source_end a \<le> ?start + d"
  proof
    fix a assume "a \<in> set (sources s)"
    with before have "source_end a \<le> ?start" by blast
    with d show "source_end a \<le> ?start + d" by linarith
  qed
  have new_end: "source_end ?new = ?start + d"
    by (simp add: source_end_def)
  have "back_to_back (sources s @ [?new])"
    using ok before by (simp add: back_to_back_snoc schedule_ok_def)
  moreover have "list_all (\<lambda>src. source_end src \<le> ?start + d) (sources s @ [?new])"
    using after new_end by (simp add: list_all_iff)
  ultimately show ?thesis
    by (simp only: schedule_ok_def srcs nst)
qed


lemma schedule_ok_onmessage:
  assumes "schedule_ok s"
  shows "schedule_ok (fst (onmessage r clk m s))"
proof (cases "carriesAudio m")
  case False
  show ?thesis
  proof (cases "interrupted m")
    case True
    with False show ?thesis by (simp add: schedule_ok_empty onmessage_silent)
  next
    case quiet: False
    have "sources (fst (onmessage r clk m s)) = sources s"
      and "nextStartTime s \<le> nextStartTime (fst (onmessage r clk m s))"
      using False quiet by (simp_all add: onmessage_silent)
    with assms show ?thesis by (rule schedule_ok_later)
  qed
next
  case True
  show ?thesis
  proof (cases "inboundBuffer m")
    case None
    have "sources (fst (onmessage r clk m s)) = sources s"
      and "nextStartTime s \<le> nextStartTime (fst (onmessage r clk m s))"
      using True None by (simp_all add: onmessage_undecodable)
    with assms show ?thesis by (rule schedule_ok_later)
  next
    case (Some d)
    show ?thesis
    proof (cases "interrupted m")
      case True
      then show ?thesis by (simp add: schedule_ok_empty onmessage_buffer [OF Some])
    next
      case False
      have "sources (fst (onmessage r clk m s))
              = sources s @ [\<lparr> source_id = created s,
                                   startAt = max (nextStartTime s) (currentTime clk),
                                   duration = d \<rparr>]"
        and "nextStartTime (fst (onmessage r clk m s))
              = max (nextStartTime s) (currentTime clk) + d"
        using False by (simp_all add: onmessage_buffer [OF Some])
      with assms inboundBuffer_positive [OF Some] show ?thesis
        by (rule schedule_ok_buffer)
    qed
  qed
qed


lemma schedule_ok_onended: "schedule_ok s \<Longrightarrow> schedule_ok (onended sid s)"
  by (auto simp: schedule_ok_def onended_def Let_def back_to_back_def list_all_iff
        intro: sorted_wrt_filter)


lemma schedule_ok_handle: "schedule_ok s \<Longrightarrow> schedule_ok (handle r ev s)"
  by (cases ev) (simp_all add: schedule_ok_onmessage schedule_ok_onended)


lemma schedule_ok_run: "schedule_ok s \<Longrightarrow> schedule_ok (run r evs s)"
  unfolding run_def
  by (induction evs arbitrary: s) (simp_all add: schedule_ok_handle)


lemma schedule_ok_initial: "schedule_ok initialSession"
  by (simp add: schedule_ok_empty initialSession_def)


lemma back_to_back_disjoint:
  assumes "back_to_back srcs" and "i < j" and "j < length srcs"
  shows "disjoint_sources (srcs ! i) (srcs ! j)"
  using assms by (simp add: back_to_back_def sorted_wrt_iff_nth_less disjoint_sources_def)


lemma run_split: "run r (pre @ ev # evs) s = run r evs (handle r ev (run r pre s))"
  by (simp add: run_def)

text \<open>Two buffers with quiet events between them.\<close>

lemma buffers_in_a_row:
  assumes m: "inboundBuffer m = Some d" "\<not> interrupted m"
    and qs: "list_all quiet qs"
    and m': "inboundBuffer m' = Some d'"
  shows "nextStartTime (run r (pre @ Message clk m # qs) s0)
           = source_end (last (started (run r (pre @ [Message clk m]) s0)))"
    and "butlast (started (run r (pre @ Message clk m # qs @ [Message clk' m']) s0))
           = started (run r (pre @ [Message clk m]) s0)"
    and "startAt (last (started (run r (pre @ Message clk m # qs @ [Message clk' m']) s0)))
           = max (source_end (last (started (run r (pre @ [Message clk m]) s0))))
                 (currentTime clk')"
    and "duration (last (started (run r (pre @ Message clk m # qs @ [Message clk' m']) s0))) = d'"
proof -
  let ?s = "run r pre s0"
  let ?a = "handle r (Message clk m) ?s"
  let ?q = "run r qs ?a"
  let ?b = "handle r (Message clk' m') ?q"
  have a: "run r (pre @ [Message clk m]) s0 = ?a"
    and q: "run r (pre @ Message clk m # qs) s0 = ?q"
    and b: "run r (pre @ Message clk m # qs @ [Message clk' m']) s0 = ?b"
    by (simp_all add: run_def)
  have a_end: "source_end (last (started ?a)) = nextStartTime ?a"
    using m by (simp add: onmessage_buffer [OF m(1)] source_end_def)
  have q_clock: "nextStartTime ?q = nextStartTime ?a" and q_log: "started ?q = started ?a"
    using run_quiet [OF qs, of r ?a] by simp_all
  have b_log: "started ?b = started ?a @ [\<lparr> source_id = created ?q,
                                              startAt = max (nextStartTime ?a) (currentTime clk'),
                                              duration = d' \<rparr>]"
    using q_clock q_log by (simp add: onmessage_buffer [OF m'])
  show "nextStartTime (run r (pre @ Message clk m # qs) s0)
           = source_end (last (started (run r (pre @ [Message clk m]) s0)))"
    unfolding a q by (simp only: q_clock a_end)
  show "butlast (started (run r (pre @ Message clk m # qs @ [Message clk' m']) s0))
           = started (run r (pre @ [Message clk m]) s0)"
    unfolding a b by (simp only: b_log butlast_snoc)
  show "startAt (last (started (run r (pre @ Message clk m # qs @ [Message clk' m']) s0)))
           = max (source_end (last (started (run r (pre @ [Message clk m]) s0))))
                 (currentTime clk')"
    unfolding a b by (simp only: b_log a_end last_snoc ScheduledSource.simps)
  show "duration (last (started (run r (pre @ Message clk m # qs @ [Message clk' m']) s0))) = d'"
    unfolding b by (simp only: b_log last_snoc ScheduledSource.simps)
qed

text \<open>An interruption, then quiet events, then a buffer.\<close>

lemma interruption_then_buffer:
  assumes mi: "interrupted mi" "decodable mi"
  shows "sources (run r (pre @ [Message clki mi]) s0) = []"
    and "nextStartTime (run r (pre @ [Message clki mi]) s0) = 0"
    and "set (map source_id (sources (run r pre s0)))
           \<subseteq> set (stopped (run r (pre @ [Message clki mi]) s0))"
    and "list_all quiet qs \<Longrightarrow> inboundBuffer m' = Some d' \<Longrightarrow> 0 \<le> currentTime clk' \<Longrightarrow>
         butlast (started (run r (pre @ Message clki mi # qs @ [Message clk' m']) s0))
           = started (run r (pre @ [Message clki mi]) s0)
         \<and> startAt (last (started (run r (pre @ Message clki mi # qs @ [Message clk' m']) s0)))
           = currentTime clk'"
proof -
  let ?s = "run r pre s0"
  let ?a = "handle r (Message clki mi) ?s"
  have a: "run r (pre @ [Message clki mi]) s0 = ?a"
    by (simp add: run_def)
  show "sources (run r (pre @ [Message clki mi]) s0) = []"
    and clock: "nextStartTime (run r (pre @ [Message clki mi]) s0) = 0"
    and "set (map source_id (sources (run r pre s0)))
           \<subseteq> set (stopped (run r (pre @ [Message clki mi]) s0))"
    unfolding a using onmessage_interrupted [OF mi, where r = r and clk = clki and s = ?s]
    by simp_all
  show "butlast (started (run r (pre @ Message clki mi # qs @ [Message clk' m']) s0))
           = started (run r (pre @ [Message clki mi]) s0)
         \<and> startAt (last (started (run r (pre @ Message clki mi # qs @ [Message clk' m']) s0)))
           = currentTime clk'"
    if qs: "list_all quiet qs" and m': "inboundBuffer m' = Some d'" and now: "0 \<le> currentTime clk'"
  proof -
    let ?q = "run r qs ?a"
    let ?b = "handle r (Message clk' m') ?q"
    have b: "run r (pre @ Message clki mi # qs @ [Message clk' m']) s0 = ?b"
      by (simp add: run_def)
    have q_clock: "nextStartTime ?q = 0" and q_log: "started ?q = started ?a"
      using run_quiet [OF qs, of r ?a] clock a by simp_all
    have "started ?b = started ?a @ [\<lparr> source_id = created ?q,
                                         startAt = currentTime clk',
                                         duration = d' \<rparr>]"
      using now q_clock q_log by (simp add: onmessage_buffer [OF m'] max_def)
    then show ?thesis
      unfolding a b by (simp only: butlast_snoc last_snoc ScheduledSource.simps simp_thms)
  qed
qed

lemma example_messages:
  "\<not> interrupted (audioMessage examplePayload)"
  "\<not> carriesAudio (textMessage i out)" "\<not> interrupted (textMessage i out)"
  "\<not> carriesAudio turnCompleteMessage" "\<not> interrupted turnCompleteMessage"
  "\<not> carriesAudio interruptedMessage" "interrupted interruptedMessage"
  by (simp_all add: audioMessage_def textMessage_def turnCompleteMessage_def
        interruptedMessage_def carriesAudio_def)

lemma exampleAudioEvents_log:
  "map startAt (started (run (exampleRender [] [] []) (take 4 exampleAudioEvents) initialSession))
     = [1/2, 12001/24000]"
  "sources (run (exampleRender [] [] []) (take 5 exampleAudioEvents) initialSession) = []"
  "stopped (run (exampleRender [] [] []) (take 5 exampleAudioEvents) initialSession) = [0, 1]"
  "map startAt (started (run (exampleRender [] [] []) exampleAudioEvents initialSession))
     = [1/2, 12001/24000, 13/4]"
  by (simp_all add: run_def exampleAudioEvents_def exampleClock_def initialSession_def
        onmessage_buffer [OF examplePayload_buffer] onmessage_silent example_messages
        onended_def)


text \<open>
  Claim C4. A message whose audio decodes starts one source, at the later of
  \<open>nextStartTime\<close> and the current time of the audio context, and without an interruption
  in the same message \<open>nextStartTime\<close> then advances to that start plus the buffer's
  duration. Events that bring neither audio nor an interruption (text deltas, turn-complete
  signals, \<open>ended\<close> events) leave \<open>nextStartTime\<close> and the log of started sources alone.
  The active sources lie back to back below \<open>nextStartTime\<close> in the initial state and
  after any sequence of events from such a state, so no two of them overlap. At any point
  of any sequence, of two buffers with only such quiet events between them the second
  starts at the later of the first one's end and the current time, and nothing else is
  started between them: no gap is added when it arrives in time. At any point of any
  sequence, an interruption on a message whose audio, if it carries any, decodes stops
  every active source, empties the set and sets \<open>nextStartTime\<close> to 0, and the next buffer,
  after any quiet events, starts at the current time.
\<close>

theorem C4_playback_schedule:
  "(inboundBuffer m = Some d \<longrightarrow>
      snd (onmessage r clk m s) = None
      \<and> started (fst (onmessage r clk m s))
          = started s @ [\<lparr> source_id = created s,
                             startAt = max (nextStartTime s) (currentTime clk),
                             duration = d \<rparr>]
      \<and> (\<not> interrupted m \<longrightarrow>
            sources (fst (onmessage r clk m s))
              = sources s @ [\<lparr> source_id = created s,
                                 startAt = max (nextStartTime s) (currentTime clk),
                                 duration = d \<rparr>]
            \<and> nextStartTime (fst (onmessage r clk m s))
              = max (nextStartTime s) (currentTime clk) + d))
   \<and> (list_all quiet qs \<longrightarrow>
        nextStartTime (run r qs s) = nextStartTime s
        \<and> started (run r qs s) = started s
        \<and> set (sources (run r qs s)) \<subseteq> set (sources s))
   \<and> schedule_ok initialSession
   \<and> (schedule_ok s0 \<longrightarrow>
        schedule_ok (run r evs s0)
        \<and> (\<forall>i j. i < j \<and> j < length (sources (run r evs s0)) \<longrightarrow>
              disjoint_sources (sources (run r evs s0) ! i) (sources (run r evs s0) ! j)))
   \<and> (inboundBuffer m = Some d \<and> \<not> interrupted m \<and> list_all quiet qs
        \<and> inboundBuffer m' = Some d' \<longrightarrow>
        nextStartTime (run r (pre @ Message clk m # qs) s0)
          = source_end (last (started (run r (pre @ [Message clk m]) s0)))
        \<and> butlast (started (run r (pre @ Message clk m # qs @ [Message clk' m']) s0))
          = started (run r (pre @ [Message clk m]) s0)
        \<and> startAt (last (started (run r (pre @ Message clk m # qs @ [Message clk' m']) s0)))
          = max (source_end (last (started (run r (pre @ [Message clk m]) s0))))
                (currentTime clk')
        \<and> duration (last (started (run r (pre @ Message clk m # qs @ [Message clk' m']) s0)))
          = d')
   \<and> (interrupted mi \<and> decodable mi \<longrightarrow>
        sources (run r (prei @ [Message clki mi]) s0) = []
        \<and> nextStartTime (run r (prei @ [Message clki mi]) s0) = 0
        \<and> set (map source_id (sources (run r prei s0)))
            \<subseteq> set (stopped (run r (prei @ [Message clki mi]) s0))
        \<and> (list_all quiet qsi \<and> inboundBuffer mn = Some dn \<and> 0 \<le> currentTime clkn \<longrightarrow>
             butlast (started (run r (prei @ Message clki mi # qsi @ [Message clkn mn]) s0))
               = started (run r (prei @ [Message clki mi]) s0)
             \<and> startAt (last (started
                   (run r (prei @ Message clki mi # qsi @ [Message clkn mn]) s0)))
               = currentTime clkn))"
proof -
  have step: "snd (onmessage r clk m s) = None
      \<and> started (fst (onmessage r clk m s))
          = started s @ [\<lparr> source_id = created s,
                             startAt = max (nextStartTime s) (currentTime clk),
                             duration = d \<rparr>]
      \<and> (\<not> interrupted m \<longrightarrow>
            sources (fst (onmessage r clk m s))
              = sources s @ [\<lparr> source_id = created s,
                                 startAt = max (nextStartTime s) (currentTime clk),
                                 duration = d \<rparr>]
            \<and> nextStartTime (fst (onmessage r clk m s))
              = max (nextStartTime s) (currentTime clk) + d)"
    if "inboundBuffer m = Some d"
    by (simp add: onmessage_buffer [OF that])
  have inv: "schedule_ok (run r evs s0)
      \<and> (\<forall>i j. i < j \<and> j < length (sources (run r evs s0)) \<longrightarrow>
            disjoint_sources (sources (run r evs s0) ! i) (sources (run r evs s0) ! j))"
    if "schedule_ok s0"
  proof -
    have ok: "schedule_ok (run r evs s0)"
      using that by (rule schedule_ok_run)
    then have "back_to_back (sources (run r evs s0))"
      by (simp add: schedule_ok_def)
    with ok show ?thesis
      using back_to_back_disjoint by blast
  qed
  have gap: "nextStartTime (run r (pre @ Message clk m # qs) s0)
          = source_end (last (started (run r (pre @ [Message clk m]) s0)))
        \<and> butlast (started (run r (pre @ Message clk m # qs @ [Message clk' m']) s0))
          = started (run r (pre @ [Message clk m]) s0)
        \<and> startAt (last (started (run r (pre @ Message clk m # qs @ [Message clk' m']) s0)))
          = max (source_end (last (started (run r (pre @ [Message clk m]) s0))))
                (currentTime clk')
        \<and> duration (last (started (run r (pre @ Message clk m # qs @ [Message clk' m']) s0)))
          = d'"
    if "inboundBuffer m = Some d" "\<not> interrupted m" "list_all quiet qs"
      "inboundBuffer m' = Some d'"
    by (intro conjI buffers_in_a_row [OF that])
  have cut: "sources (run r (prei @ [Message clki mi]) s0) = []
        \<and> nextStartTime (run r (prei @ [Message clki mi]) s0) = 0
        \<and> set (map source_id (sources (run r prei s0)))
            \<subseteq> set (stopped (run r (prei @ [Message clki mi]) s0))"
    if "interrupted mi" "decodable mi"
    by (intro conjI interruption_then_buffer [OF that])
  have resume: "butlast (started (run r (prei @ Message clki mi # qsi @ [Message clkn mn]) s0))
               = started (run r (prei @ [Message clki mi]) s0)
             \<and> startAt (last (started
                   (run r (prei @ Message clki mi # qsi @ [Message clkn mn]) s0)))
               = currentTime clkn"
    if "interrupted mi" "decodable mi" "list_all quiet qsi" "inboundBuffer mn = Some dn"
      "0 \<le> currentTime clkn"
    using that by (rule interruption_then_buffer(4))
  from step run_quiet [of qs r s] schedule_ok_initial inv gap cut resume
  show ?thesis by blast
qed

theorem C4_playback_schedule_witness:
  "inboundBuffer (audioMessage examplePayload) = Some (1/24000)
   \<and> \<not> interrupted (audioMessage examplePayload)
   \<and> list_all quiet (take 2 (drop 1 exampleAudioEvents))
   \<and> interrupted interruptedMessage \<and> decodable interruptedMessage
   \<and> list_all quiet (take 1 (drop 5 exampleAudioEvents))
   \<and> 0 \<le> currentTime (exampleClock (13/4))
   \<and> schedule_ok initialSession
   \<and> map startAt (started (run (exampleRender [] [] []) (take 4 exampleAudioEvents)
                              initialSession)) = [1/2, 12001/24000]
   \<and> sources (run (exampleRender [] [] []) (take 5 exampleAudioEvents) initialSession) = []
   \<and> stopped (run (exampleRender [] [] []) (take 5 exampleAudioEvents) initialSession) = [0, 1]
   \<and> map startAt (started (run (exampleRender [] [] []) exampleAudioEvents initialSession))
       = [1/2, 12001/24000, 13/4]
   \<and> schedule_ok (run (exampleRender [] [] []) exampleAudioEvents initialSession)"
proof -
  have quiet1: "list_all quiet (take 2 (drop 1 exampleAudioEvents))"
    and quiet2: "list_all quiet (take 1 (drop 5 exampleAudioEvents))"
    by (simp_all add: exampleAudioEvents_def example_messages)
  have mi: "interrupted interruptedMessage" "decodable interruptedMessage"
    by (simp_all add: example_messages decodable_def)
  have now: "0 \<le> currentTime (exampleClock (13/4))"
    by (simp add: exampleClock_def)
  have ok: "schedule_ok initialSession
      \<and> schedule_ok (run (exampleRender [] [] []) exampleAudioEvents initialSession)"
    using C4_playback_schedule [of "audioMessage examplePayload" "1/24000"
        "exampleRender [] [] []" "exampleClock (1/2)" initialSession
        "take 2 (drop 1 exampleAudioEvents)" initialSession exampleAudioEvents
        "audioMessage examplePayload" "1/24000" "[]" "exampleClock (1/2)"
        interruptedMessage "take 4 exampleAudioEvents" "exampleClock 1"
        "take 1 (drop 5 exampleAudioEvents)" "audioMessage examplePayload" "1/24000"
        "exampleClock (13/4)"]
    by blast
  from examplePayload_buffer example_messages(1) quiet1 mi quiet2 now ok exampleAudioEvents_log
  show ?thesis by blast
qed

section \<open>Properties of the transcript\<close>

text \<open>
  In the callback a turn-complete or interruption signal tests and commits the
  \<open>currentInput\<close> and \<open>currentOutput\<close> of the render that started the session, not the
  accumulated state: with both empty in that render, no message changes the transcript.
\<close>

lemma trim_empty: "trim [] = []"
  by (simp add: trim_def)

lemma transcriptionPart_commits_nothing:
  assumes "currentInput_r r = []" and "currentOutput_r r = []"
  shows "transcripts (transcriptionPart r clk m s) = transcripts s"
  using assms by (simp add: transcriptionPart_def Let_def trim_empty split: option.splits)

lemma audioPart_transcripts:
  "transcripts (fst (audioPart clk m s)) = transcripts s"
  "currentOutput (fst (audioPart clk m s)) = currentOutput s"
  by (simp_all add: audioPart_def Let_def split: option.splits sum.splits)

lemma onmessage_commits_nothing:
  assumes "currentInput_r r = []" and "currentOutput_r r = []"
  shows "transcripts (fst (onmessage r clk m s)) = transcripts s"
  using assms
  by (cases "audioPart clk m (transcriptionPart r clk m s)")
     (auto simp: onmessage_parts interruptionPart_def Let_def
        transcriptionPart_commits_nothing
        dest: arg_cong [where f = "\<lambda>p. transcripts (fst p)"]
        simp: audioPart_transcripts split: option.splits)

lemma onmessage_interruption_commits_captured:
  assumes "interrupted m" and "\<not> turnComplete m" and "\<not> carriesAudio m"
    and "currentOutput_r r \<noteq> []"
  shows "transcripts (fst (onmessage r clk m s))
     = transcripts s @ [\<lparr> role = model, entry_text = currentOutput_r r @ ''...'',
                          timestamp = localeTime clk \<rparr>]"
  using assms
  by (simp add: onmessage_parts audioPart_silent interruptionPart_def transcriptionPart_def
        Let_def split: option.splits)

text \<open>
  Claim C5 at a concrete input. A session started from the initial state receives the
  input delta "Hi", the output delta "Hello" and a turn-complete signal: no entry is
  committed and neither accumulator is cleared.
\<close>

theorem C5_turn_complete_commits_nothing:
  "transcripts (run (render None None False False initialSession) exampleTranscriptEvents
                  initialSession) = []
   \<and> currentInput (run (render None None False False initialSession) exampleTranscriptEvents
                      initialSession) = ''Hi''
   \<and> currentOutput (run (render None None False False initialSession) exampleTranscriptEvents
                       initialSession) = ''Hello''"
  by (simp add: run_def exampleTranscriptEvents_def textMessage_def turnCompleteMessage_def
        render_def initialSession_def onmessage_def seq_def stmt_def transcriptionPart_def
        audioPart_def interruptionPart_def trim_empty)

text \<open>
  Claim C6 at a concrete input. A session started from the initial state receives the
  output delta "Hello" and an interruption: no entry is committed and the accumulator
  still holds "Hello".
\<close>

theorem C6_interruption_commits_nothing:
  "transcripts (run (render None None False False initialSession) exampleBargeInEvents
                  initialSession) = []
   \<and> currentOutput (run (render None None False False initialSession) exampleBargeInEvents
                       initialSession) = ''Hello''"
  by (simp add: run_def exampleBargeInEvents_def textMessage_def interruptedMessage_def
        render_def initialSession_def onmessage_def seq_def stmt_def transcriptionPart_def
        audioPart_def interruptionPart_def trim_empty)

section \<open>Properties of ending a call\<close>

text \<open>
  Claim C7. When the session stops with an active recorder, an update callback and an
  active lead, one update is sent: its status and sentiment are \<open>COMPLETED\<close>/\<open>Positive\<close>
  for more than 6 committed transcript entries, \<open>FAILED\<close>/\<open>Negative\<close> for fewer than 2,
  \<open>COMPLETED\<close>/\<open>Neutral\<close> otherwise, and the same update carries the recording and the
  transcript.
\<close>

theorem C7_end_call_heuristic:
  assumes "onUpdateLead r" and "activeLead r = Some al"
  shows "\<exists>l. stopSession r True base64data = Some l
     \<and> (status l, sentiment l) =
         (if length (transcripts_r r) > 6 then (COMPLETED, Some Positive)
          else if length (transcripts_r r) < 2 then (FAILED, Some Negative)
          else (COMPLETED, Some Neutral))
     \<and> recording l = Some base64data
     \<and> transcript l = Some (transcripts_r r)
     \<and> l = al\<lparr>status := status l, sentiment := sentiment l,
              transcript := Some (transcripts_r r), lastContacted := Some ''Just now'',
              recording := Some base64data\<rparr>"
  using assms by (simp add: stopSession_def Let_def)

theorem C7_end_call_heuristic_witness:
  "onUpdateLead (exampleRender [exampleEntry user ''Hello''] [] [])
   \<and> activeLead (exampleRender [exampleEntry user ''Hello''] [] [])
       = Some (exampleLead ''Per Se'' ''$$$$'' IN_PROGRESS None)
   \<and> status (the (stopSession (exampleRender [exampleEntry user ''Hello''] [] []) True
                   ''data:audio/webm;base64,AAAA'')) = FAILED
   \<and> sentiment (the (stopSession (exampleRender [exampleEntry user ''Hello''] [] []) True
                      ''data:audio/webm;base64,AAAA'')) = Some Negative
   \<and> recording (the (stopSession (exampleRender [exampleEntry user ''Hello''] [] []) True
                      ''data:audio/webm;base64,AAAA'')) = Some ''data:audio/webm;base64,AAAA''"
  using C7_end_call_heuristic [of "exampleRender [exampleEntry user ''Hello''] [] []"
      "exampleLead ''Per Se'' ''$$$$'' IN_PROGRESS None" "''data:audio/webm;base64,AAAA''"]
  by (simp add: exampleRender_def stopSession_def Let_def)

section \<open>Properties of the post-call pipeline\<close>

lemma seq_no_throw: "snd (first s) = None \<Longrightarrow> seq first second s = second (fst (first s))"
  by (cases "first s") (simp add: seq_def)

lemma seq_stmt: "seq (stmt f) second s = second (f s)"
  by (simp add: seq_def stmt_def)

lemma classificationTry_threw:
  "(snd (classificationTry r ll sr p) \<noteq> None) = (sr = Rejected \<or> sr = Unparseable)"
  by (cases sr; cases ll) (simp_all add: classificationTry_def Let_def)

lemma extractionTry_threw:
  "(snd (extractionTry r tr n d p) \<noteq> None)
     = (tr = Rejected \<or> tr = Unparseable
        \<or> (\<exists>td. tr = Parsed td \<and> found td \<and> content_t td \<noteq> [] \<and> effectiveLead r = None))"
  by (cases tr; cases "effectiveLead r") (simp_all add: extractionTry_def Let_def)

lemma classificationStage_caught: "snd (classificationStage r ll sr p) = None"
  by (cases sr; cases ll)
     (simp_all add: classificationStage_def classificationTry_def try_catch_def stmt_def Let_def)

lemma extractionStage_caught: "snd (extractionStage r tr n d p) = None"
  by (cases tr; cases "effectiveLead r")
     (simp_all add: extractionStage_def extractionTry_def try_catch_def stmt_def Let_def)

lemma classificationStage_failed:
  assumes "sr = Rejected \<or> sr = Unparseable"
  shows "fst (classificationStage r ll sr p)
     = p\<lparr>effects := effects p @ [GenerateContent ''gemini-flash-lite-latest''],
         summary := Some ''Analysis temporarily unavailable.''\<rparr>"
  using assms
  by (auto simp: classificationStage_def classificationTry_def try_catch_def stmt_def Let_def)

lemma classificationStage_keeps:
  "learningStatus (fst (classificationStage r ll sr p)) = learningStatus p
   \<and> isSummarizing (fst (classificationStage r ll sr p)) = isSummarizing p"
  by (cases sr; cases ll)
     (simp_all add: classificationStage_def classificationTry_def try_catch_def stmt_def Let_def)

lemma classificationStage_effects:
  "\<exists>us. effects (fst (classificationStage r ll sr p))
           = effects p @ GenerateContent ''gemini-flash-lite-latest'' # us
        \<and> (\<forall>u \<in> set us. \<exists>l. u = UpdateLead l)"
  by (cases sr; cases ll)
     (simp_all add: classificationStage_def classificationTry_def try_catch_def stmt_def Let_def)

lemma extractionStage_failed:
  assumes "snd (extractionTry r tr n d q) \<noteq> None"
  shows "fst (extractionStage r tr n d p)
     = p\<lparr>effects := effects p @ [GenerateContent ''gemini-3-pro-preview''],
         learningStatus := Some ''Training skipped due to API timeout.''\<rparr>"
  using assms
  by (cases tr; cases "effectiveLead r")
     (auto simp: extractionStage_def extractionTry_def try_catch_def stmt_def Let_def
        split: if_splits)

lemma extractionStage_keeps:
  "summary (fst (extractionStage r tr n d p)) = summary p
   \<and> isSummarizing (fst (extractionStage r tr n d p)) = isSummarizing p"
  by (cases tr; cases "effectiveLead r")
     (simp_all add: extractionStage_def extractionTry_def try_catch_def stmt_def Let_def)

lemma extractionStage_effects:
  "\<exists>us. effects (fst (extractionStage r tr n d p))
           = effects p @ GenerateContent ''gemini-3-pro-preview'' # us
        \<and> (\<forall>u \<in> set us. \<exists>k. u = Learn k)"
  by (cases tr; cases "effectiveLead r")
     (simp_all add: extractionStage_def extractionTry_def try_catch_def stmt_def Let_def)

text \<open>The pipeline on a non-empty transcript, stage by stage.\<close>

lemma processPostCall_stages:
  assumes "fullTranscript r \<noteq> []"
  shows "processPostCall r ll sr tr n d p0 =
    (let p2 = fst (classificationStage r ll sr
                    (p0\<lparr>isSummarizing := True, summary := None, learningStatus := None\<rparr>));
         p3 = (if 4 < length (fullTranscript r) \<and> onLearn r
               then fst (extractionStage r tr n d
                      (p2\<lparr>learningStatus := Some ''Analyzing call for new training data...''\<rparr>))
               else p2)
     in (p3\<lparr>isSummarizing := False\<rparr>, None))"
  using assms
  by (simp add: processPostCall_def Let_def seq_stmt seq_no_throw classificationStage_caught
        extractionStage_caught stmt_def)

lemma processPostCall_no_exception: "snd (processPostCall r ll sr tr n d p0) = None"
  by (cases "fullTranscript r = []")
     (simp_all add: processPostCall_stages Let_def, simp add: processPostCall_def)

text \<open>
  Claim C8. In \<open>processPostCall\<close>, started with an empty log of collaborator calls:
  when the classification stage fails (the call is rejected or its text does not parse) the
  summary is the fixed message "Analysis temporarily unavailable." and no lead update is
  sent; the extraction call is made exactly when the full transcript (committed entries
  plus trailing partials) has more than 4 entries and \<open>onLearn\<close> is given, whatever the
  classification stage did; when the extraction stage fails, the learning status is the
  text "Training skipped due to API timeout." and no snippet is handed on; and no
  exception leaves the pipeline.
\<close>

theorem C8_post_call_pipeline:
  assumes log: "effects p0 = []"
  shows "(fullTranscript r \<noteq> [] \<and> (sr = Rejected \<or> sr = Unparseable) \<longrightarrow>
            summary (fst (processPostCall r ll sr tr n d p0))
              = Some ''Analysis temporarily unavailable.''
            \<and> (\<forall>l. UpdateLead l \<notin> set (effects (fst (processPostCall r ll sr tr n d p0)))))
       \<and> ((GenerateContent ''gemini-3-pro-preview''
              \<in> set (effects (fst (processPostCall r ll sr tr n d p0))))
            = (4 < length (fullTranscript r) \<and> onLearn r))
       \<and> (4 < length (fullTranscript r) \<and> onLearn r \<and> snd (extractionTry r tr n d p0) \<noteq> None \<longrightarrow>
            learningStatus (fst (processPostCall r ll sr tr n d p0))
              = Some ''Training skipped due to API timeout.''
            \<and> (\<forall>k. Learn k \<notin> set (effects (fst (processPostCall r ll sr tr n d p0)))))
       \<and> snd (processPostCall r ll sr tr n d p0) = None"
proof -
  let ?p1 = "p0\<lparr>isSummarizing := True, summary := None, learningStatus := None\<rparr>"
  let ?p2 = "fst (classificationStage r ll sr ?p1)"
  let ?q = "?p2\<lparr>learningStatus := Some ''Analyzing call for new training data...''\<rparr>"
  let ?x = "fst (extractionStage r tr n d ?q)"
  let ?go = "4 < length (fullTranscript r) \<and> onLearn r"
  let ?res = "fst (processPostCall r ll sr tr n d p0)"
  obtain us where us: "effects ?p2 = GenerateContent ''gemini-flash-lite-latest'' # us"
      "\<forall>u \<in> set us. \<exists>l. u = UpdateLead l"
    using classificationStage_effects [of r ll sr ?p1] log by auto
  obtain vs where vs: "effects ?x = effects ?q @ GenerateContent ''gemini-3-pro-preview'' # vs"
      "\<forall>v \<in> set vs. \<exists>k. v = Learn k"
    using extractionStage_effects [of r tr n d ?q] by auto
  have skip: "?res = ?p2\<lparr>isSummarizing := False\<rparr>" if "fullTranscript r \<noteq> []" "\<not> ?go"
    using that by (auto simp: processPostCall_stages Let_def)
  have run: "?res = ?x\<lparr>isSummarizing := False\<rparr>" if "?go"
  proof -
    from that have "fullTranscript r \<noteq> []" by auto
    with that show ?thesis by (simp add: processPostCall_stages Let_def)
  qed
  have empty: "?res = p0" if "fullTranscript r = []"
    using that by (simp add: processPostCall_def)
  have a: "summary ?res = Some ''Analysis temporarily unavailable.''
           \<and> (\<forall>l. UpdateLead l \<notin> set (effects ?res))"
    if ne: "fullTranscript r \<noteq> []" and f: "sr = Rejected \<or> sr = Unparseable"
  proof (cases ?go)
    case True
    have "summary ?x = Some ''Analysis temporarily unavailable.''"
      using extractionStage_keeps [of r tr n d ?q] classificationStage_failed [OF f, of r ll ?p1]
      by simp
    moreover have "effects ?q = [GenerateContent ''gemini-flash-lite-latest'']"
      using classificationStage_failed [OF f, of r ll ?p1] log by simp
    ultimately show ?thesis using run [OF True] vs by auto
  next
    case False
    show ?thesis
      using skip [OF ne False] classificationStage_failed [OF f, of r ll ?p1] log by simp
  qed
  have b: "(GenerateContent ''gemini-3-pro-preview'' \<in> set (effects ?res)) = ?go"
  proof (cases ?go)
    case True
    then show ?thesis using run [OF True] vs by simp
  next
    case False
    show ?thesis
    proof (cases "fullTranscript r = []")
      case True
      then show ?thesis using empty log False by simp
    next
      case ne: False
      show ?thesis using skip [OF ne False] us False by auto
    qed
  qed
  have c: "learningStatus ?res = Some ''Training skipped due to API timeout.''
           \<and> (\<forall>k. Learn k \<notin> set (effects ?res))"
    if go: "?go" and f: "snd (extractionTry r tr n d p0) \<noteq> None"
  proof -
    have x: "?x = ?q\<lparr>effects := effects ?q @ [GenerateContent ''gemini-3-pro-preview''],
                    learningStatus := Some ''Training skipped due to API timeout.''\<rparr>"
      using f by (rule extractionStage_failed)
    have "?res = ?q\<lparr>effects := effects ?q @ [GenerateContent ''gemini-3-pro-preview''],
                      learningStatus := Some ''Training skipped due to API timeout.'',
                      isSummarizing := False\<rparr>"
      using run [OF go] x by simp
    then show ?thesis using us by auto
  qed
  have e: "snd (processPostCall r ll sr tr n d p0) = None"
    by (rule processPostCall_no_exception)
  from a b c e show ?thesis by blast
qed

theorem C8_post_call_pipeline_witness:
  "effects freshPostCall = []
   \<and> length (fullTranscript (exampleRender (replicate 4 (exampleEntry user ''Hello'')) ''ok'' [])) = 5
   \<and> onLearn (exampleRender (replicate 4 (exampleEntry user ''Hello'')) ''ok'' [])
   \<and> snd (extractionTry (exampleRender (replicate 4 (exampleEntry user ''Hello'')) ''ok'' [])
            Unparseable ''1700000000000'' ''1/2/2025'' freshPostCall) = Some SyntaxError
   \<and> summary (fst (processPostCall (exampleRender (replicate 4 (exampleEntry user ''Hello'')) ''ok'' [])
                     None Rejected Unparseable ''1700000000000'' ''1/2/2025'' freshPostCall))
       = Some ''Analysis temporarily unavailable.''
   \<and> GenerateContent ''gemini-3-pro-preview''
       \<in> set (effects (fst (processPostCall
                 (exampleRender (replicate 4 (exampleEntry user ''Hello'')) ''ok'' [])
                 None Rejected Unparseable ''1700000000000'' ''1/2/2025'' freshPostCall)))
   \<and> learningStatus (fst (processPostCall
                 (exampleRender (replicate 4 (exampleEntry user ''Hello'')) ''ok'' [])
                 None Rejected Unparseable ''1700000000000'' ''1/2/2025'' freshPostCall))
       = Some ''Training skipped due to API timeout.''
   \<and> snd (processPostCall (exampleRender (replicate 4 (exampleEntry user ''Hello'')) ''ok'' [])
            None Rejected Unparseable ''1700000000000'' ''1/2/2025'' freshPostCall) = None"
proof -
  let ?r = "exampleRender (replicate 4 (exampleEntry user ''Hello'')) ''ok'' []"
  have log: "effects freshPostCall = []"
    by (simp add: freshPostCall_def)
  have len: "length (fullTranscript ?r) = 5"
    by (simp add: fullTranscript_def exampleRender_def trim_def isSpace_def)
  have learn: "onLearn ?r"
    by (simp add: exampleRender_def)
  have threw: "snd (extractionTry ?r Unparseable ''1700000000000'' ''1/2/2025'' freshPostCall)
      = Some SyntaxError"
    by (simp add: extractionTry_def)
  from len have ne: "fullTranscript ?r \<noteq> []" by auto
  show ?thesis
    using C8_post_call_pipeline [OF log, of ?r Rejected None Unparseable
        "''1700000000000''" "''1/2/2025''"] log len learn threw ne
    by simp
qed

end
